theory Spec2Isabelle
  imports Complex_Main "HOL-Library.Sublist"
begin

section \<open>Python values used by app.py\<close>

text \<open>
  Exceptions are values.  Only the classes that the handlers of app.py tell apart are
  distinguished: \<open>RequestException\<close> stands for requests.exceptions.RequestException and
  its subclasses other than \<open>HTTPError\<close> (ConnectionError, Timeout, ...);
  \<open>OtherException\<close> is any other subclass of Exception.  Exceptions outside the
  Exception hierarchy (KeyboardInterrupt, SystemExit) are not raised by the library calls
  themselves and are not modelled.
\<close>

datatype exn_class =
  FileNotFoundError | KeyError | ValueError | HTTPError | RequestException | OtherException

datatype exn = Exn (exn_class: exn_class) (exn_str: string)

text \<open>\<open>isinstance(e, requests.exceptions.RequestException)\<close>\<close>

definition is_RequestException :: "exn \<Rightarrow> bool" where
  "is_RequestException e = (exn_class e = RequestException \<or> exn_class e = HTTPError)"

text \<open>\<open>datetime(year, month, day)\<close> has time of day zero; the last field is the time of
  day in microseconds.\<close>

datatype datetime = Datetime int int int nat

text \<open>Decimal rendering of a natural number, as \<open>str(n)\<close> gives it.\<close>

definition digit_char :: "nat \<Rightarrow> char" where
  "digit_char d = ''0123456789'' ! d"

function str_nat :: "nat \<Rightarrow> string" where
  "str_nat n = (if n < 10 then [digit_char n] else str_nat (n div 10) @ [digit_char (n mod 10)])"
  by pat_completeness auto
termination
  by (relation "measure id") auto

declare str_nat.simps [simp del]

section \<open>Data frames\<close>

text \<open>
  A cell is missing (\<open>NaN\<close>, which also stands for None and NaT), a number, a timestamp
  counted in whole days, or a string.  Python floats are modelled by reals: the program
  passes them on and compares them, it does no arithmetic on them.
  A frame has an index (one label per row, with the index's name) and named columns;
  a row is its index label with its cells, one per column.
\<close>

datatype cell = NaN | Num real | Date int | Str string

record dataframe =
  index_name :: "string option"
  columns :: "string list"
  rows :: "(cell \<times> cell list) list"

text \<open>\<open>pd.DataFrame()\<close>\<close>

definition DataFrame :: dataframe where
  "DataFrame = \<lparr>index_name = None, columns = [], rows = []\<rparr>"

text \<open>\<open>df.empty\<close>: some axis has length 0.\<close>

definition empty :: "dataframe \<Rightarrow> bool" where
  "empty df = (columns df = [] \<or> rows df = [])"

text \<open>\<open>len(df)\<close>\<close>

definition len :: "dataframe \<Rightarrow> nat" where
  "len df = length (rows df)"

text \<open>\<open>df.dropna()\<close>: the rows none of whose cells is missing.\<close>

definition complete_row :: "cell \<times> cell list \<Rightarrow> bool" where
  "complete_row r = (NaN \<notin> set (snd r))"

definition dropna :: "dataframe \<Rightarrow> dataframe" where
  "dropna df = df\<lparr>rows := filter complete_row (rows df)\<rparr>"

text \<open>
  \<open>df.reset_index()\<close>: the index becomes the first column, named after the index
  (\<open>index\<close>, or \<open>level_0\<close>, for an index without a name), and the rows are numbered from 0.
  pandas raises ValueError when a column of that name is there already.
\<close>

definition reset_index :: "dataframe \<Rightarrow> exn + dataframe" where
  "reset_index df =
     (let name = (case index_name df of
                    Some n \<Rightarrow> n
                  | None \<Rightarrow> if ''index'' \<in> set (columns df) then ''level_0'' else ''index'')
      in if name \<in> set (columns df)
         then Inl (Exn ValueError (''cannot insert '' @ name @ '', already exists''))
         else Inr \<lparr>index_name = None,
                   columns = name # columns df,
                   rows = map (\<lambda>(k, (i, cs)). (Num (of_nat k), i # cs))
                              (enumerate 0 (rows df))\<rparr>)"

text \<open>\<open>df.rename(columns={...})\<close>: labels that the dictionary has no entry for stay.\<close>

definition rename_columns :: "(string \<rightharpoonup> string) \<Rightarrow> dataframe \<Rightarrow> dataframe" where
  "rename_columns m df =
     df\<lparr>columns := map (\<lambda>c. case m c of Some c' \<Rightarrow> c' | None \<Rightarrow> c) (columns df)\<rparr>"

text \<open>
  Indexing a frame with a list of names: the columns of these names in the order asked for (all the
  columns carrying a name, when a label is repeated); KeyError when a name is no column.
\<close>

definition pick_cells :: "string list \<Rightarrow> string list \<Rightarrow> cell list \<Rightarrow> cell list" where
  "pick_cells names cols cs =
     concat (map (\<lambda>n. map snd (filter (\<lambda>(c, v). c = n) (zip cols cs))) names)"

definition select_columns :: "string list \<Rightarrow> dataframe \<Rightarrow> exn + dataframe" where
  "select_columns names df =
     (case filter (\<lambda>n. n \<notin> set (columns df)) names of
        n # _ \<Rightarrow> Inl (Exn KeyError (n @ '' not in index''))
      | [] \<Rightarrow> Inr (df\<lparr>columns := concat (map (\<lambda>n. filter (\<lambda>c. c = n) (columns df)) names),
                      rows := map (\<lambda>(i, cs). (i, pick_cells names (columns df) cs)) (rows df)\<rparr>))"

section \<open>The world outside the program\<close>

datatype json =
  JNull | JBool bool | JNum real | JStr string | JArr "json list" | JObj "(string \<times> json) list"

text \<open>A response of requests: its status, reason and URL, and what \<open>response.json()\<close>
  gives (the parsed body, or the exception it raises).\<close>

record response =
  status_code :: nat
  reason :: string
  response_url :: string
  json_body :: "exn + json"

text \<open>What fitting leaves behind in a Prophet model besides the dates of its history:
  the columns of a forecast other than \<open>ds\<close>, and the forecast's cells at a date.\<close>

record fitted =
  forecast_columns :: "string list"
  forecast_row :: "int \<Rightarrow> cell list"

record prophet_args =
  daily_seasonality :: bool
  weekly_seasonality :: bool
  yearly_seasonality :: bool

text \<open>
  Everything app.py reads from outside: the secrets file of Streamlit (None when there is
  no file), the clock, the rendering of a float by an f-string, and the outcome of each
  library call that leaves the process or is a black box to the program.
\<close>

record world =
  st_secrets :: "(string \<rightharpoonup> (string \<rightharpoonup> string)) option"
  now :: datetime
  str_float :: "real \<Rightarrow> string"
  meteostat_fetch :: "real \<Rightarrow> real \<Rightarrow> int \<Rightarrow> datetime \<Rightarrow> datetime \<Rightarrow> exn + dataframe"
  pd_read_csv :: "string \<Rightarrow> exn + dataframe"
  requests_get :: "string \<Rightarrow> nat \<Rightarrow> exn + response"
  stan_fit :: "prophet_args \<Rightarrow> dataframe \<Rightarrow> exn + fitted"
  stan_predict_error :: "fitted \<Rightarrow> int list \<Rightarrow> exn option"

text \<open>What a run does that can be observed from outside, in order.\<close>

datatype st_element = Info string | Success string | Warning string | Error string

datatype event =
    St st_element
  | Meteostat_fetch real real int datetime datetime
  | Read_csv string
  | Requests_get string nat
  | Prophet_fit prophet_args dataframe
  | Prophet_make_future_dataframe nat
  | Prophet_predict dataframe

text \<open>The st elements that a trace shows.\<close>

fun st_elements :: "event list \<Rightarrow> st_element list" where
  "st_elements [] = []"
| "st_elements (St x # t) = x # st_elements t"
| "st_elements (_ # t) = st_elements t"

definition is_meteostat_fetch :: "event \<Rightarrow> bool" where
  "is_meteostat_fetch e = (case e of Meteostat_fetch _ _ _ _ _ \<Rightarrow> True | _ \<Rightarrow> False)"

definition is_read_csv :: "event \<Rightarrow> bool" where
  "is_read_csv e = (case e of Read_csv _ \<Rightarrow> True | _ \<Rightarrow> False)"

definition is_requests_get :: "event \<Rightarrow> bool" where
  "is_requests_get e = (case e of Requests_get _ _ \<Rightarrow> True | _ \<Rightarrow> False)"

definition is_prophet_fit :: "event \<Rightarrow> bool" where
  "is_prophet_fit e = (case e of Prophet_fit _ _ \<Rightarrow> True | _ \<Rightarrow> False)"

definition is_prophet_predict :: "event \<Rightarrow> bool" where
  "is_prophet_predict e = (case e of Prophet_predict _ \<Rightarrow> True | _ \<Rightarrow> False)"

text \<open>How often a kind of event occurs in a trace.\<close>

definition count_events :: "(event \<Rightarrow> bool) \<Rightarrow> event list \<Rightarrow> nat" where
  "count_events P t = length (filter P t)"

section \<open>app.py: configuration\<close>

definition JAMMU_LAT :: real where
  "JAMMU_LAT = 32.73"

definition JAMMU_LON :: real where
  "JAMMU_LON = 74.86"

text \<open>
  Lines 18 to 22: \<open>st.secrets["api"]["openweather_api_key"]\<close>, and None with an error
  message when a key is missing (KeyError) or there is no secrets file (FileNotFoundError).
\<close>

definition secrets_error :: string where
  "secrets_error =
     ''OpenWeather API key not found. Please add it to your .streamlit/secrets.toml file.''"

definition OPENWEATHER_API_KEY :: "world \<Rightarrow> string option \<times> event list" where
  "OPENWEATHER_API_KEY w =
     (case st_secrets w of
        None \<Rightarrow> (None, [St (Error secrets_error)])
      | Some s \<Rightarrow>
          (case s ''api'' of
             None \<Rightarrow> (None, [St (Error secrets_error)])
           | Some api \<Rightarrow>
               (case api ''openweather_api_key'' of
                  None \<Rightarrow> (None, [St (Error secrets_error)])
                | Some k \<Rightarrow> (Some k, []))))"

section \<open>app.py: get_historical_data\<close>

definition fallback_file :: string where
  "fallback_file = ''jammu_historical_weather.csv''"

text \<open>Lines 53 to 60, the fallback to the local CSV file, after the trace \<open>t\<close>.\<close>

definition read_fallback :: "world \<Rightarrow> event list \<Rightarrow> (exn + dataframe) \<times> event list" where
  "read_fallback w t =
     (case pd_read_csv w fallback_file of
        Inr df_fallback \<Rightarrow>
          (Inr df_fallback,
           t @ [Read_csv fallback_file,
                St (Success ''Successfully loaded data from local fallback CSV.'')])
      | Inl e \<Rightarrow>
          if exn_class e = FileNotFoundError
          then (Inr DataFrame,
                t @ [Read_csv fallback_file,
                     St (Error (''Fallback file '' @ [CHR 0x27] @ fallback_file @ [CHR 0x27]
                               @ '' not found. Please ensure it exists.''))])
          else (Inl e, t @ [Read_csv fallback_file]))"

text \<open>
  Lines 31 to 60, the body of the function (the decorator is modelled further down).
  \<open>Point(lat, lon, 327)\<close>, \<open>Daily(location, start_date, end_date)\<close> and \<open>data.fetch()\<close> are
  one call to the outside; any exception of the try block is caught.
\<close>

definition get_historical_data ::
  "world \<Rightarrow> real \<Rightarrow> real \<Rightarrow> datetime \<Rightarrow> datetime \<Rightarrow> (exn + dataframe) \<times> event list" where
  "get_historical_data w lat lon start_date end_date =
     (let t = [St (Info ''Fetching historical data from Meteostat...''),
               Meteostat_fetch lat lon 327 start_date end_date]
      in case meteostat_fetch w lat lon 327 start_date end_date of
           Inr df \<Rightarrow>
             if \<not> empty df \<and> ''prcp'' \<in> set (columns df) \<and> len (dropna df) > 30
             then (Inr df,
                   t @ [St (Success ''Successfully fetched historical data from Meteostat.'')])
             else read_fallback w
                    (t @ [St (Warning
                       ''Meteostat API returned insufficient data. Using a fallback dataset.'')])
         | Inl e \<Rightarrow>
             read_fallback w
               (t @ [St (Error (''Error fetching data from Meteostat: '' @ exn_str e
                               @ ''. Using a fallback dataset.''))]))"

section \<open>app.py: get_real_time_data\<close>

text \<open>\<open>response.raise_for_status()\<close> of requests: HTTPError for a status from 400 to 599.\<close>

definition raise_for_status :: "response \<Rightarrow> exn option" where
  "raise_for_status r =
     (if 400 \<le> status_code r \<and> status_code r < 500
      then Some (Exn HTTPError (str_nat (status_code r) @ '' Client Error: '' @ reason r
                                @ '' for url: '' @ response_url r))
      else if 500 \<le> status_code r \<and> status_code r < 600
      then Some (Exn HTTPError (str_nat (status_code r) @ '' Server Error: '' @ reason r
                                @ '' for url: '' @ response_url r))
      else None)"

text \<open>Line 69, the f-string of the URL.\<close>

definition weather_url :: "world \<Rightarrow> string \<Rightarrow> real \<Rightarrow> real \<Rightarrow> string" where
  "weather_url w api_key lat lon =
     ''https://api.openweathermap.org/data/2.5/weather?lat='' @ str_float w lat
     @ ''&lon='' @ str_float w lon @ ''&appid='' @ api_key @ ''&units=metric''"

text \<open>Lines 74 to 76: the handler of \<open>requests.exceptions.RequestException\<close>; any other
  exception leaves the function.\<close>

definition real_time_handler ::
  "exn \<Rightarrow> event list \<Rightarrow> (exn + json option) \<times> event list" where
  "real_time_handler e t =
     (if is_RequestException e
      then (Inr None, t @ [St (Error (''Error fetching real-time weather data: '' @ exn_str e))])
      else (Inl e, t))"

text \<open>Lines 62 to 76.  \<open>not api_key\<close> holds of None and of the empty string.\<close>

definition get_real_time_data ::
  "world \<Rightarrow> string option \<Rightarrow> real \<Rightarrow> real \<Rightarrow> (exn + json option) \<times> event list" where
  "get_real_time_data w api_key lat lon =
     (case api_key of
        None \<Rightarrow> (Inr None, [])
      | Some k \<Rightarrow>
          if k = [] then (Inr None, [])
          else
            (let request_url = weather_url w k lat lon;
                 t = [Requests_get request_url 10]
             in case requests_get w request_url 10 of
                  Inl e \<Rightarrow> real_time_handler e t
                | Inr r \<Rightarrow>
                    (case raise_for_status r of
                       Some e \<Rightarrow> real_time_handler e t
                     | None \<Rightarrow>
                         (case json_body r of
                            Inl e \<Rightarrow> real_time_handler e t
                          | Inr j \<Rightarrow> (Inr (Some j), t)))))"

section \<open>The forecasting library\<close>

text \<open>
  Prophet is not part of the repository.  Its three entry points are modelled by what
  its documentation says of them, with the statistics left to the world:
  \<open>fit\<close> keeps the sorted distinct dates of the column \<open>ds\<close> as the history;
  \<open>make_future_dataframe(periods)\<close>, with the default daily frequency and the history
  included, gives the history followed by the \<open>periods\<close> days after its last date;
  \<open>predict\<close> gives one row for each date of the frame it is handed.
\<close>

record prophet =
  history_dates :: "int list"
  params :: fitted

text \<open>The dates of the column \<open>ds\<close>, when the frame has exactly one such column and
  all of its cells are timestamps.\<close>

fun ds_dates_rows :: "string list \<Rightarrow> (cell \<times> cell list) list \<Rightarrow> int list option" where
  "ds_dates_rows cols [] = Some []"
| "ds_dates_rows cols ((i, cs) # rs) =
     (case pick_cells [''ds''] cols cs of
        [Date d] \<Rightarrow> (case ds_dates_rows cols rs of Some ds \<Rightarrow> Some (d # ds) | None \<Rightarrow> None)
      | _ \<Rightarrow> None)"

definition ds_dates :: "dataframe \<Rightarrow> int list option" where
  "ds_dates df = ds_dates_rows (columns df) (rows df)"

text \<open>\<open>pd.DataFrame({'ds': dates})\<close>\<close>

definition ds_frame :: "int list \<Rightarrow> dataframe" where
  "ds_frame dates =
     \<lparr>index_name = None, columns = [''ds''],
      rows = map (\<lambda>(k, d). (Num (of_nat k), [Date d])) (enumerate 0 dates)\<rparr>"

definition prophet_fit :: "world \<Rightarrow> prophet_args \<Rightarrow> dataframe \<Rightarrow> exn + prophet" where
  "prophet_fit w args df =
     (if len df < 2 then Inl (Exn ValueError ''Dataframe has less than 2 non-NaN rows.'')
      else case ds_dates df of
             None \<Rightarrow> Inl (Exn ValueError ''Unable to read column ds as dates.'')
           | Some ds \<Rightarrow>
               (case stan_fit w args df of
                  Inl e \<Rightarrow> Inl e
                | Inr f \<Rightarrow> Inr \<lparr>history_dates = sort (remdups ds), params = f\<rparr>))"

definition make_future_dataframe :: "prophet \<Rightarrow> nat \<Rightarrow> exn + dataframe" where
  "make_future_dataframe m periods =
     (case history_dates m of
        [] \<Rightarrow> Inl (Exn OtherException ''Model has not been fit.'')
      | d # ds \<Rightarrow>
          (let last_date = fold max ds d
           in Inr (ds_frame (history_dates m
                             @ map (\<lambda>k. last_date + int k) [1..<periods + 1]))))"

definition prophet_predict :: "world \<Rightarrow> prophet \<Rightarrow> dataframe \<Rightarrow> exn + dataframe" where
  "prophet_predict w m future =
     (case ds_dates future of
        None \<Rightarrow> Inl (Exn ValueError ''Unable to read column ds as dates.'')
      | Some ds \<Rightarrow>
          if ds = [] then Inl (Exn ValueError ''Dataframe has no rows.'')
          else (case stan_predict_error w (params m) ds of
                  Some e \<Rightarrow> Inl e
                | None \<Rightarrow>
                    Inr \<lparr>index_name = None,
                         columns = ''ds'' # forecast_columns (params m),
                         rows = map (\<lambda>(k, d). (Num (of_nat k),
                                                Date d # forecast_row (params m) d))
                                    (enumerate 0 ds)\<rparr>))"

section \<open>app.py: get_forecast_data\<close>

text \<open>Lines 86 to 90: the index becomes a column, \<open>time\<close> and \<open>prcp\<close> are renamed to
  \<open>ds\<close> and \<open>y\<close>, these two columns are kept, and the rows with a missing value go.\<close>

definition df_prophet :: "dataframe \<Rightarrow> exn + dataframe" where
  "df_prophet historical_df =
     (case reset_index historical_df of
        Inl e \<Rightarrow> Inl e
      | Inr d \<Rightarrow>
          (case select_columns [''ds'', ''y'']
                  (rename_columns [''time'' \<mapsto> ''ds'', ''prcp'' \<mapsto> ''y''] d) of
             Inl e \<Rightarrow> Inl e
           | Inr d' \<Rightarrow> Inr (dropna d')))"

definition Prophet_args :: prophet_args where
  "Prophet_args = \<lparr>daily_seasonality = True, weekly_seasonality = False,
                   yearly_seasonality = True\<rparr>"

text \<open>Lines 79 to 101.\<close>

definition get_forecast_data :: "world \<Rightarrow> dataframe \<Rightarrow> (exn + dataframe) \<times> event list" where
  "get_forecast_data w historical_df =
     (if empty historical_df \<or> ''prcp'' \<notin> set (columns historical_df) then (Inr DataFrame, [])
      else case df_prophet historical_df of
             Inl e \<Rightarrow> (Inl e, [])
           | Inr p \<Rightarrow>
               if len p < 30
               then (Inr DataFrame,
                     [St (Warning (''Not enough data to generate a forecast. Only ''
                                  @ str_nat (len p) @ '' data points available.''))])
               else
                 (case prophet_fit w Prophet_args p of
                    Inl e \<Rightarrow> (Inl e, [Prophet_fit Prophet_args p])
                  | Inr m \<Rightarrow>
                      (case make_future_dataframe m 15 of
                         Inl e \<Rightarrow>
                           (Inl e, [Prophet_fit Prophet_args p, Prophet_make_future_dataframe 15])
                       | Inr future \<Rightarrow>
                           (case prophet_predict w m future of
                              Inl e \<Rightarrow>
                                (Inl e, [Prophet_fit Prophet_args p,
                                         Prophet_make_future_dataframe 15,
                                         Prophet_predict future])
                            | Inr forecast \<Rightarrow>
                                (Inr forecast, [Prophet_fit Prophet_args p,
                                                Prophet_make_future_dataframe 15,
                                                Prophet_predict future])))))"

section \<open>app.py: the run of the script\<close>

text \<open>
  \<open>@st.cache_data\<close> on get_historical_data: Streamlit keeps, across the runs of a
  session, the frame returned for each tuple of arguments with the st elements the call
  showed; a later call with the same arguments returns the stored frame and shows the
  stored elements again without running the body.  A call that raises stores nothing.
\<close>

type_synonym cache_key = "real \<times> real \<times> datetime \<times> datetime"

type_synonym st_cache = "cache_key \<rightharpoonup> dataframe \<times> st_element list"

definition cached_get_historical_data ::
  "world \<Rightarrow> st_cache \<Rightarrow> real \<Rightarrow> real \<Rightarrow> datetime \<Rightarrow> datetime
     \<Rightarrow> ((exn + dataframe) \<times> event list) \<times> st_cache" where
  "cached_get_historical_data w cache lat lon start_date end_date =
     (case cache (lat, lon, start_date, end_date) of
        Some (df, shown) \<Rightarrow> ((Inr df, map St shown), cache)
      | None \<Rightarrow>
          (case get_historical_data w lat lon start_date end_date of
             (Inr df, t) \<Rightarrow>
               ((Inr df, t),
                cache((lat, lon, start_date, end_date) \<mapsto> (df, st_elements t)))
           | (Inl e, t) \<Rightarrow> ((Inl e, t), cache)))"

record fetched =
  historical_df :: dataframe
  forecast_df :: dataframe
  real_time_data :: "json option"

text \<open>
  Lines 18 to 22 and 110 to 113: the key is read, then the three values that the tabs
  show are computed, in this order; an exception that leaves one of the calls ends the
  run.  The drawing of the tabs (lines 115 to 186) makes no further fetch; of it only
  the markers of the risk map are modelled, below.
\<close>

definition run :: "world \<Rightarrow> st_cache \<Rightarrow> ((exn + fetched) \<times> event list) \<times> st_cache" where
  "run w cache =
     (case OPENWEATHER_API_KEY w of
        (api_key, t0) \<Rightarrow>
          (case cached_get_historical_data w cache JAMMU_LAT JAMMU_LON
                  (Datetime 2020 1 1 0) (now w) of
             ((Inl e, t1), cache') \<Rightarrow> ((Inl e, t0 @ t1), cache')
           | ((Inr h, t1), cache') \<Rightarrow>
               (case get_forecast_data w h of
                  (Inl e, t2) \<Rightarrow> ((Inl e, t0 @ t1 @ t2), cache')
                | (Inr f, t2) \<Rightarrow>
                    (case get_real_time_data w api_key JAMMU_LAT JAMMU_LON of
                       (Inl e, t3) \<Rightarrow> ((Inl e, t0 @ t1 @ t2 @ t3), cache')
                     | (Inr r, t3) \<Rightarrow>
                         ((Inr \<lparr>historical_df = h, forecast_df = f, real_time_data = r\<rparr>,
                           t0 @ t1 @ t2 @ t3), cache')))))"

text \<open>The trace of a run.\<close>

definition run_trace :: "world \<Rightarrow> st_cache \<Rightarrow> event list" where
  "run_trace w cache = snd (fst (run w cache))"

section \<open>app.py: the risk map\<close>

record hotspot =
  hotspot_lat :: real
  hotspot_lon :: real
  hotspot_name :: string
  hotspot_risk :: string

record marker =
  marker_location :: "real \<times> real"
  marker_popup :: string
  icon_color :: string
  icon_icon :: string
  icon_prefix :: string

definition landslide_hotspots :: "hotspot list" where
  "landslide_hotspots =
     [\<lparr>hotspot_lat = 32.78, hotspot_lon = 74.92, hotspot_name = ''Nagrota'',
       hotspot_risk = ''High''\<rparr>,
      \<lparr>hotspot_lat = 32.75, hotspot_lon = 74.88, hotspot_name = ''Jammu City'',
       hotspot_risk = ''Medium''\<rparr>]"

text \<open>Python's \<open>sub in s\<close> on strings.\<close>

fun contains :: "string \<Rightarrow> string \<Rightarrow> bool" where
  "contains sub [] = (sub = [])"
| "contains sub (c # cs) = (prefix sub (c # cs) \<or> contains sub cs)"

text \<open>Lines 177 to 184, the body of the loop over the hotspots.\<close>

definition hotspot_marker :: "hotspot \<Rightarrow> marker" where
  "hotspot_marker h =
     (let color = (if hotspot_risk h = ''High'' then ''red'' else ''orange'');
          icon = (if contains ''Cloudburst'' (hotspot_name h) then ''cloud'' else ''bolt'')
      in \<lparr>marker_location = (hotspot_lat h, hotspot_lon h),
          marker_popup = ''**'' @ hotspot_name h @ ''**<br>Risk: '' @ hotspot_risk h,
          icon_color = color, icon_icon = icon, icon_prefix = ''fa''\<rparr>)"

text \<open>Lines 176 to 184: one marker for each hotspot, in the order of the list.\<close>

definition risk_map_markers :: "marker list" where
  "risk_map_markers = map hotspot_marker landslide_hotspots"

section \<open>Sample worlds\<close>

text \<open>A daily frame as Meteostat gives it: the index \<open>time\<close> of consecutive days and no
  missing value.\<close>

definition daily_frame :: "nat \<Rightarrow> dataframe" where
  "daily_frame n =
     \<lparr>index_name = Some ''time'', columns = [''tavg'', ''prcp''],
      rows = map (\<lambda>k. (Date (int k), [Num 20, Num 0])) [0..<n]\<rparr>"

text \<open>The series that lines 86 to 90 prepare from such a frame.\<close>

definition prepared_frame :: "nat \<Rightarrow> dataframe" where
  "prepared_frame n =
     \<lparr>index_name = None, columns = [''ds'', ''y''],
      rows = map (\<lambda>k. (Num (of_nat k), [Date (int k), Num 0])) [0..<n]\<rparr>"

definition flat_fit :: fitted where
  "flat_fit = \<lparr>forecast_columns = [''yhat'', ''yhat_lower'', ''yhat_upper''],
               forecast_row = (\<lambda>d. [Num 0, Num 0, Num 1])\<rparr>"

text \<open>The forecast that \<open>flat_fit\<close> gives for the days from 0 on.\<close>

definition flat_forecast :: "nat \<Rightarrow> dataframe" where
  "flat_forecast n =
     \<lparr>index_name = None, columns = [''ds'', ''yhat'', ''yhat_lower'', ''yhat_upper''],
      rows = map (\<lambda>k. (Num (of_nat k), [Date (int k), Num 0, Num 0, Num 1])) [0..<n]\<rparr>"

text \<open>The cache of a session that has not run the script yet.\<close>

definition no_cache :: st_cache where
  "no_cache = Map.empty"

definition sample_json :: json where
  "sample_json = JObj [(''main'', JObj [(''temp'', JNum 21), (''humidity'', JNum 40)])]"

text \<open>Every service answers: Meteostat with 40 days, the CSV file holds 35 days.\<close>

definition world_online :: world where
  "world_online =
     \<lparr>st_secrets = Some [''api'' \<mapsto> [''openweather_api_key'' \<mapsto> ''k3y'']],
      now = Datetime 2026 11 4 0,
      str_float = (\<lambda>x. if x = 32.73 then ''32.73'' else if x = 74.86 then ''74.86'' else ''0.0''),
      meteostat_fetch = (\<lambda>lat lon alt s e. Inr (daily_frame 40)),
      pd_read_csv = (\<lambda>f. Inr (daily_frame 35)),
      requests_get = (\<lambda>u t. Inr \<lparr>status_code = 200, reason = ''OK'', response_url = u,
                                  json_body = Inr sample_json\<rparr>),
      stan_fit = (\<lambda>a df. Inr flat_fit),
      stan_predict_error = (\<lambda>f ds. None)\<rparr>"

text \<open>Nothing answers: no secrets file, Meteostat and OpenWeather unreachable, and no
  CSV file on disk.\<close>

definition world_offline :: world where
  "world_offline =
     world_online
       \<lparr>st_secrets := None,
        meteostat_fetch := (\<lambda>lat lon alt s e. Inl (Exn OtherException ''connection refused'')),
        pd_read_csv := (\<lambda>f. Inl (Exn FileNotFoundError ''No such file or directory'')),
        requests_get := (\<lambda>u t. Inl (Exn RequestException ''connection refused''))\<rparr>"

text \<open>All services answer, but there is no secrets file.\<close>

definition world_no_key :: world where
  "world_no_key = world_online\<lparr>st_secrets := None\<rparr>"

text \<open>Meteostat answers with 10 days only; the CSV file is there.\<close>

definition world_sparse :: world where
  "world_sparse = world_online\<lparr>meteostat_fetch := (\<lambda>lat lon alt s e. Inr (daily_frame 10))\<rparr>"

text \<open>
  A frame of 42 days in which precipitation is missing on days 10 and 11 and on the last
  five days, 37 to 41; the series that lines 86 to 90 prepare from it (35 rows, which keep
  the numbers they had before the rows with a missing value were dropped); and the
  forecast that \<open>flat_fit\<close> gives for the dates of that series and the 15 days after the
  last of them.
\<close>

definition gap_frame :: dataframe where
  "gap_frame =
     \<lparr>index_name = Some ''time'', columns = [''tavg'', ''prcp''],
      rows = map (\<lambda>k. (Date (int k),
                          [Num 20, if k = 10 \<or> k = 11 \<or> 37 \<le> k then NaN else Num 0]))
                 [0..<42]\<rparr>"

definition gap_prepared :: dataframe where
  "gap_prepared =
     \<lparr>index_name = None, columns = [''ds'', ''y''],
      rows = map (\<lambda>k. (Num (of_nat k), [Date (int k), Num 0])) ([0..<10] @ [12..<37])\<rparr>"

definition gap_forecast :: dataframe where
  "gap_forecast =
     \<lparr>index_name = None, columns = [''ds'', ''yhat'', ''yhat_lower'', ''yhat_upper''],
      rows = map (\<lambda>(k, d). (Num (of_nat k), [Date (int d), Num 0, Num 0, Num 1]))
                 (enumerate 0 ([0..<10] @ [12..<52]))\<rparr>"

text \<open>Every service answers, and Meteostat answers with the frame that has gaps.\<close>

definition world_gaps :: world where
  "world_gaps = world_online\<lparr>meteostat_fetch := (\<lambda>lat lon alt s e. Inr gap_frame)\<rparr>"

section \<open>Properties of get_historical_data\<close>

lemma read_fallback_result:
  "fst (read_fallback w t) =
     (case pd_read_csv w fallback_file of
        Inr d \<Rightarrow> Inr d
      | Inl e \<Rightarrow> if exn_class e = FileNotFoundError then Inr DataFrame else Inl e)"
  by (simp add: read_fallback_def split: sum.splits)

lemma read_fallback_reads_once:
  "filter is_read_csv (snd (read_fallback w t)) = filter is_read_csv t @ [Read_csv fallback_file]"
  by (simp add: read_fallback_def is_read_csv_def split: sum.splits)

lemma read_fallback_no_fetch:
  "filter is_meteostat_fetch (snd (read_fallback w t)) = filter is_meteostat_fetch t"
  by (simp add: read_fallback_def is_meteostat_fetch_def split: sum.splits)

lemma historical_sufficient:
  assumes "meteostat_fetch w lat lon 327 s e = Inr df"
    and "\<not> empty df \<and> ''prcp'' \<in> set (columns df) \<and> 30 < len (dropna df)"
  shows "get_historical_data w lat lon s e =
           (Inr df, [St (Info ''Fetching historical data from Meteostat...''),
                     Meteostat_fetch lat lon 327 s e,
                     St (Success ''Successfully fetched historical data from Meteostat.'')])"
  using assms by (simp add: get_historical_data_def)

lemma historical_insufficient:
  assumes "meteostat_fetch w lat lon 327 s e = Inr df"
    and "\<not> (\<not> empty df \<and> ''prcp'' \<in> set (columns df) \<and> 30 < len (dropna df))"
  shows "get_historical_data w lat lon s e =
           read_fallback w
             [St (Info ''Fetching historical data from Meteostat...''),
              Meteostat_fetch lat lon 327 s e,
              St (Warning ''Meteostat API returned insufficient data. Using a fallback dataset.'')]"
  using assms by (auto simp: get_historical_data_def)

lemma historical_raises:
  assumes "meteostat_fetch w lat lon 327 s e = Inl x"
  shows "get_historical_data w lat lon s e =
           read_fallback w
             [St (Info ''Fetching historical data from Meteostat...''),
              Meteostat_fetch lat lon 327 s e,
              St (Error (''Error fetching data from Meteostat: '' @ exn_str x
                         @ ''. Using a fallback dataset.''))]"
  using assms by (simp add: get_historical_data_def)

lemma historical_fetches_once:
  "filter is_meteostat_fetch (snd (get_historical_data w lat lon s e))
     = [Meteostat_fetch lat lon 327 s e]"
  by (cases "meteostat_fetch w lat lon 327 s e")
     (simp_all add: get_historical_data_def Let_def read_fallback_no_fetch is_meteostat_fetch_def)

lemma historical_reads:
  "filter is_read_csv (snd (get_historical_data w lat lon s e)) =
     (case meteostat_fetch w lat lon 327 s e of
        Inr df \<Rightarrow>
          if \<not> empty df \<and> ''prcp'' \<in> set (columns df) \<and> 30 < len (dropna df) then []
          else [Read_csv fallback_file]
      | Inl x \<Rightarrow> [Read_csv fallback_file])"
  by (cases "meteostat_fetch w lat lon 327 s e")
     (auto simp: get_historical_data_def Let_def read_fallback_reads_once is_read_csv_def)

lemmas frame_eval = empty_def len_def dropna_def complete_row_def daily_frame_def

text \<open>
  C9: when Meteostat answers with a frame, get_historical_data returns that frame without
  reading the fallback file exactly when the frame is not empty, has a column \<open>prcp\<close> and
  keeps strictly more than 30 rows once the rows with a missing value are dropped; with
  any other frame it takes the fallback branch and reads the CSV file once.
\<close>

theorem meteostat_data_sufficient_iff:
  assumes "meteostat_fetch w lat lon 327 s e = Inr df"
  shows "((fst (get_historical_data w lat lon s e) = Inr df
           \<and> count_events is_read_csv (snd (get_historical_data w lat lon s e)) = 0)
          = (\<not> empty df \<and> ''prcp'' \<in> set (columns df) \<and> 30 < len (dropna df)))
       \<and> ((get_historical_data w lat lon s e =
             read_fallback w
               [St (Info ''Fetching historical data from Meteostat...''),
                Meteostat_fetch lat lon 327 s e,
                St (Warning
                  ''Meteostat API returned insufficient data. Using a fallback dataset.'')]
           \<and> count_events is_read_csv (snd (get_historical_data w lat lon s e)) = 1)
          = (\<not> (\<not> empty df \<and> ''prcp'' \<in> set (columns df) \<and> 30 < len (dropna df))))"
proof -
  have reads: "count_events is_read_csv (snd (get_historical_data w lat lon s e)) =
          (if \<not> empty df \<and> ''prcp'' \<in> set (columns df) \<and> 30 < len (dropna df) then 0 else 1)"
    using assms by (simp add: count_events_def historical_reads)
  show ?thesis
  proof (cases "\<not> empty df \<and> ''prcp'' \<in> set (columns df) \<and> 30 < len (dropna df)")
    case True
    have "fst (get_historical_data w lat lon s e) = Inr df"
      by (simp add: historical_sufficient [OF assms True])
    with True reads show ?thesis by simp
  next
    case False
    note fb = historical_insufficient [OF assms False]
    from False reads fb show ?thesis by simp
  qed
qed

theorem meteostat_data_sufficient_iff_witness:
  "meteostat_fetch world_online JAMMU_LAT JAMMU_LON 327 (Datetime 2020 1 1 0) (now world_online)
     = Inr (daily_frame 40)
   \<and> 30 < len (dropna (daily_frame 40))
   \<and> fst (get_historical_data world_online JAMMU_LAT JAMMU_LON (Datetime 2020 1 1 0)
            (now world_online)) = Inr (daily_frame 40)
   \<and> meteostat_fetch world_sparse JAMMU_LAT JAMMU_LON 327 (Datetime 2020 1 1 0) (now world_sparse)
     = Inr (daily_frame 10)
   \<and> \<not> 30 < len (dropna (daily_frame 10))
   \<and> count_events is_read_csv
        (snd (get_historical_data world_sparse JAMMU_LAT JAMMU_LON (Datetime 2020 1 1 0)
               (now world_sparse))) = 1"
proof -
  have a: "meteostat_fetch world_online JAMMU_LAT JAMMU_LON 327 (Datetime 2020 1 1 0)
             (now world_online) = Inr (daily_frame 40)"
    by (simp add: world_online_def)
  have b: "meteostat_fetch world_sparse JAMMU_LAT JAMMU_LON 327 (Datetime 2020 1 1 0)
             (now world_sparse) = Inr (daily_frame 10)"
    by (simp add: world_sparse_def world_online_def)
  have c: "\<not> empty (daily_frame 40) \<and> ''prcp'' \<in> set (columns (daily_frame 40))
             \<and> 30 < len (dropna (daily_frame 40))"
    by (simp add: frame_eval)
  have d: "\<not> 30 < len (dropna (daily_frame 10))"
    by (simp add: frame_eval)
  from meteostat_data_sufficient_iff [OF a] c
  have e: "fst (get_historical_data world_online JAMMU_LAT JAMMU_LON (Datetime 2020 1 1 0)
            (now world_online)) = Inr (daily_frame 40)" by blast
  from meteostat_data_sufficient_iff [OF b] d
  have f: "count_events is_read_csv
        (snd (get_historical_data world_sparse JAMMU_LAT JAMMU_LON (Datetime 2020 1 1 0)
               (now world_sparse))) = 1" by blast
  from a b c d e f show ?thesis by blast
qed



text \<open>
  C1, as the code has it: a sufficient frame from Meteostat is returned as it is and the
  fallback file is not read; when Meteostat raises or its frame is insufficient, the file
  \<open>jammu_historical_weather.csv\<close> is read once, and the function returns the frame read
  from it when the read succeeds, the empty DataFrame when the file is not found, and lets
  any other exception of the read pass to the caller.
\<close>

theorem historical_data_or_fallback:
  "(\<forall>df. meteostat_fetch w lat lon 327 s e = Inr df
          \<and> \<not> empty df \<and> ''prcp'' \<in> set (columns df) \<and> 30 < len (dropna df)
        \<longrightarrow> fst (get_historical_data w lat lon s e) = Inr df
          \<and> filter is_read_csv (snd (get_historical_data w lat lon s e)) = [])
   \<and> ((\<exists>x. meteostat_fetch w lat lon 327 s e = Inl x)
        \<or> (\<exists>df. meteostat_fetch w lat lon 327 s e = Inr df
              \<and> \<not> (\<not> empty df \<and> ''prcp'' \<in> set (columns df) \<and> 30 < len (dropna df)))
        \<longrightarrow> filter is_read_csv (snd (get_historical_data w lat lon s e))
              = [Read_csv ''jammu_historical_weather.csv'']
          \<and> fst (get_historical_data w lat lon s e) =
              (case pd_read_csv w ''jammu_historical_weather.csv'' of
                 Inr d \<Rightarrow> Inr d
               | Inl y \<Rightarrow> if exn_class y = FileNotFoundError then Inr DataFrame else Inl y))"
proof -
  have "fst (get_historical_data w lat lon s e) = Inr df
          \<and> filter is_read_csv (snd (get_historical_data w lat lon s e)) = []"
    if "meteostat_fetch w lat lon 327 s e = Inr df"
      and "\<not> empty df \<and> ''prcp'' \<in> set (columns df) \<and> 30 < len (dropna df)" for df
  proof -
    have "filter is_read_csv (snd (get_historical_data w lat lon s e)) = []"
      using that by (simp add: historical_reads)
    moreover have "fst (get_historical_data w lat lon s e) = Inr df"
      by (simp add: historical_sufficient [OF that])
    ultimately show ?thesis by simp
  qed
  moreover have "filter is_read_csv (snd (get_historical_data w lat lon s e))
              = [Read_csv ''jammu_historical_weather.csv'']
          \<and> fst (get_historical_data w lat lon s e) =
              (case pd_read_csv w ''jammu_historical_weather.csv'' of
                 Inr d \<Rightarrow> Inr d
               | Inl y \<Rightarrow> if exn_class y = FileNotFoundError then Inr DataFrame else Inl y)"
    if "meteostat_fetch w lat lon 327 s e = Inl x" for x
  proof -
    have "filter is_read_csv (snd (get_historical_data w lat lon s e))
              = [Read_csv ''jammu_historical_weather.csv'']"
      using that by (simp add: historical_reads fallback_file_def)
    moreover have "fst (get_historical_data w lat lon s e) =
              (case pd_read_csv w fallback_file of
                 Inr d \<Rightarrow> Inr d
               | Inl y \<Rightarrow> if exn_class y = FileNotFoundError then Inr DataFrame else Inl y)"
      by (simp only: historical_raises [OF that] read_fallback_result)
    ultimately show ?thesis by (simp add: fallback_file_def)
  qed
  moreover have "filter is_read_csv (snd (get_historical_data w lat lon s e))
              = [Read_csv ''jammu_historical_weather.csv'']
          \<and> fst (get_historical_data w lat lon s e) =
              (case pd_read_csv w ''jammu_historical_weather.csv'' of
                 Inr d \<Rightarrow> Inr d
               | Inl y \<Rightarrow> if exn_class y = FileNotFoundError then Inr DataFrame else Inl y)"
    if a: "meteostat_fetch w lat lon 327 s e = Inr df"
      and b: "\<not> (\<not> empty df \<and> ''prcp'' \<in> set (columns df) \<and> 30 < len (dropna df))" for df
  proof -
    have "filter is_read_csv (snd (get_historical_data w lat lon s e))
              = [Read_csv ''jammu_historical_weather.csv'']"
      using a b by (simp add: historical_reads fallback_file_def)
    moreover have "fst (get_historical_data w lat lon s e) =
              (case pd_read_csv w fallback_file of
                 Inr d \<Rightarrow> Inr d
               | Inl y \<Rightarrow> if exn_class y = FileNotFoundError then Inr DataFrame else Inl y)"
      by (simp only: historical_insufficient [OF a b] read_fallback_result)
    ultimately show ?thesis by (simp add: fallback_file_def)
  qed
  ultimately show ?thesis by blast
qed

theorem historical_data_or_fallback_witness:
  "meteostat_fetch world_online JAMMU_LAT JAMMU_LON 327 (Datetime 2020 1 1 0) (now world_online)
     = Inr (daily_frame 40)
   \<and> fst (get_historical_data world_online JAMMU_LAT JAMMU_LON (Datetime 2020 1 1 0)
            (now world_online)) = Inr (daily_frame 40)
   \<and> meteostat_fetch world_sparse JAMMU_LAT JAMMU_LON 327 (Datetime 2020 1 1 0) (now world_sparse)
     = Inr (daily_frame 10)
   \<and> pd_read_csv world_sparse ''jammu_historical_weather.csv'' = Inr (daily_frame 35)
   \<and> fst (get_historical_data world_sparse JAMMU_LAT JAMMU_LON (Datetime 2020 1 1 0)
            (now world_sparse)) = Inr (daily_frame 35)"
proof -
  have a: "meteostat_fetch world_online JAMMU_LAT JAMMU_LON 327 (Datetime 2020 1 1 0)
             (now world_online) = Inr (daily_frame 40)"
    by (simp add: world_online_def)
  have b: "meteostat_fetch world_sparse JAMMU_LAT JAMMU_LON 327 (Datetime 2020 1 1 0)
             (now world_sparse) = Inr (daily_frame 10)"
    by (simp add: world_sparse_def world_online_def)
  have c: "\<not> empty (daily_frame 40) \<and> ''prcp'' \<in> set (columns (daily_frame 40))
             \<and> 30 < len (dropna (daily_frame 40))"
    by (simp add: frame_eval)
  have d: "\<not> (\<not> empty (daily_frame 10) \<and> ''prcp'' \<in> set (columns (daily_frame 10))
             \<and> 30 < len (dropna (daily_frame 10)))"
    by (simp add: frame_eval)
  have r: "pd_read_csv world_sparse ''jammu_historical_weather.csv'' = Inr (daily_frame 35)"
    by (simp add: world_sparse_def world_online_def)
  from historical_data_or_fallback
         [of world_online JAMMU_LAT JAMMU_LON "Datetime 2020 1 1 0" "now world_online"] a c
  have e: "fst (get_historical_data world_online JAMMU_LAT JAMMU_LON (Datetime 2020 1 1 0)
            (now world_online)) = Inr (daily_frame 40)" by blast
  from historical_data_or_fallback
         [of world_sparse JAMMU_LAT JAMMU_LON "Datetime 2020 1 1 0" "now world_sparse"] b d
  have "fst (get_historical_data world_sparse JAMMU_LAT JAMMU_LON (Datetime 2020 1 1 0)
            (now world_sparse)) =
              (case pd_read_csv world_sparse ''jammu_historical_weather.csv'' of
                 Inr d \<Rightarrow> Inr d
               | Inl y \<Rightarrow> if exn_class y = FileNotFoundError then Inr DataFrame else Inl y)"
    by blast
  with r have f: "fst (get_historical_data world_sparse JAMMU_LAT JAMMU_LON (Datetime 2020 1 1 0)
            (now world_sparse)) = Inr (daily_frame 35)" by simp
  from a b r e f show ?thesis by blast
qed

text \<open>
  C1 as it is stated fails where the fallback file is missing: Meteostat raises, the read
  of the file raises FileNotFoundError, and the function returns the empty DataFrame, which
  is no dataset read from the file.
\<close>

theorem fallback_file_missing_counterexample:
  "meteostat_fetch world_offline JAMMU_LAT JAMMU_LON 327 (Datetime 2020 1 1 0) (now world_offline)
     = Inl (Exn OtherException ''connection refused'')
   \<and> pd_read_csv world_offline ''jammu_historical_weather.csv''
     = Inl (Exn FileNotFoundError ''No such file or directory'')
   \<and> fst (get_historical_data world_offline JAMMU_LAT JAMMU_LON (Datetime 2020 1 1 0)
            (now world_offline)) = Inr DataFrame
   \<and> empty DataFrame"
  by (simp add: world_offline_def world_online_def get_historical_data_def read_fallback_def
      fallback_file_def empty_def DataFrame_def)

section \<open>Properties of get_real_time_data\<close>

lemma real_time_handler_trace:
  "filter is_requests_get (snd (real_time_handler x t)) = filter is_requests_get t"
  "filter is_read_csv (snd (real_time_handler x t)) = filter is_read_csv t"
  "filter is_meteostat_fetch (snd (real_time_handler x t)) = filter is_meteostat_fetch t"
  "filter is_prophet_fit (snd (real_time_handler x t)) = filter is_prophet_fit t"
  "filter is_prophet_predict (snd (real_time_handler x t)) = filter is_prophet_predict t"
  by (simp_all add: real_time_handler_def is_requests_get_def is_read_csv_def
      is_meteostat_fetch_def is_prophet_fit_def is_prophet_predict_def)

lemma real_time_handler_result:
  "is_RequestException x \<Longrightarrow> fst (real_time_handler x t) = Inr None"
  "\<not> is_RequestException x \<Longrightarrow> fst (real_time_handler x t) = Inl x"
  by (simp_all add: real_time_handler_def)

lemma raise_for_status_iff:
  "(raise_for_status r = None) = (\<not> (400 \<le> status_code r \<and> status_code r < 600))"
  by (auto simp: raise_for_status_def)

lemma raise_for_status_class:
  "raise_for_status r = Some x \<Longrightarrow> is_RequestException x"
  by (auto simp: raise_for_status_def is_RequestException_def split: if_splits)

lemma real_time_no_key:
  "get_real_time_data w None lat lon = (Inr None, [])"
  "get_real_time_data w (Some []) lat lon = (Inr None, [])"
  by (simp_all add: get_real_time_data_def)

lemma real_time_requests:
  "filter is_requests_get (snd (get_real_time_data w key lat lon)) =
     (case key of
        None \<Rightarrow> []
      | Some k \<Rightarrow> if k = [] then [] else [Requests_get (weather_url w k lat lon) 10])"
  by (simp add: get_real_time_data_def Let_def real_time_handler_trace is_requests_get_def
      split: option.splits sum.splits)

lemma real_time_other_events:
  "filter is_read_csv (snd (get_real_time_data w key lat lon)) = []"
  "filter is_meteostat_fetch (snd (get_real_time_data w key lat lon)) = []"
  "filter is_prophet_fit (snd (get_real_time_data w key lat lon)) = []"
  "filter is_prophet_predict (snd (get_real_time_data w key lat lon)) = []"
  by (simp_all add: get_real_time_data_def Let_def real_time_handler_trace is_read_csv_def
      is_meteostat_fetch_def is_prophet_fit_def is_prophet_predict_def
      split: option.splits sum.splits)

text \<open>
  C6: with a non-empty key, get_real_time_data makes exactly one GET request, with a
  timeout of 10 seconds, to the current-weather URL of OpenWeather that carries the given
  latitude, longitude and key and \<open>units=metric\<close>; when the response has no error status
  (from 400 to 599) and its body parses, the parsed body is returned.
\<close>

theorem real_time_single_request:
  assumes "k \<noteq> []"
  shows "filter is_requests_get (snd (get_real_time_data w (Some k) lat lon)) =
           [Requests_get (''https://api.openweathermap.org/data/2.5/weather?lat=''
                          @ str_float w lat @ ''&lon='' @ str_float w lon
                          @ ''&appid='' @ k @ ''&units=metric'') 10]
       \<and> (\<forall>r j. requests_get w (''https://api.openweathermap.org/data/2.5/weather?lat=''
                          @ str_float w lat @ ''&lon='' @ str_float w lon
                          @ ''&appid='' @ k @ ''&units=metric'') 10 = Inr r
                \<and> \<not> (400 \<le> status_code r \<and> status_code r < 600)
                \<and> json_body r = Inr j
              \<longrightarrow> fst (get_real_time_data w (Some k) lat lon) = Inr (Some j))"
proof -
  have "filter is_requests_get (snd (get_real_time_data w (Some k) lat lon)) =
           [Requests_get (weather_url w k lat lon) 10]"
    using assms by (simp add: real_time_requests)
  moreover have "fst (get_real_time_data w (Some k) lat lon) = Inr (Some j)"
    if "requests_get w (weather_url w k lat lon) 10 = Inr r"
      and "\<not> (400 \<le> status_code r \<and> status_code r < 600)"
      and "json_body r = Inr j" for r j
  proof -
    from that(2) have "raise_for_status r = None"
      by (simp add: raise_for_status_iff)
    with assms that(1,3) show ?thesis
      by (simp add: get_real_time_data_def Let_def)
  qed
  ultimately show ?thesis
    by (simp add: weather_url_def)
qed

theorem real_time_single_request_witness:
  "''k3y'' \<noteq> []
   \<and> requests_get world_online
       ''https://api.openweathermap.org/data/2.5/weather?lat=32.73&lon=74.86&appid=k3y&units=metric''
       10
     = Inr \<lparr>status_code = 200, reason = ''OK'',
            response_url = ''https://api.openweathermap.org/data/2.5/weather?lat=32.73&lon=74.86&appid=k3y&units=metric'',
            json_body = Inr sample_json\<rparr>
   \<and> get_real_time_data world_online (Some ''k3y'') JAMMU_LAT JAMMU_LON
     = (Inr (Some sample_json),
        [Requests_get ''https://api.openweathermap.org/data/2.5/weather?lat=32.73&lon=74.86&appid=k3y&units=metric'' 10])"
  using real_time_single_request [of "''k3y''" world_online JAMMU_LAT JAMMU_LON]
  by (simp add: world_online_def get_real_time_data_def weather_url_def raise_for_status_def
      JAMMU_LAT_def JAMMU_LON_def)

section \<open>Properties of get_forecast_data\<close>

lemma select_columns_labels:
  assumes "select_columns names d = Inr d'"
  shows "set (columns d') = set names" and "set names \<subseteq> set (columns d)"
proof -
  from assms have none: "filter (\<lambda>n. n \<notin> set (columns d)) names = []"
    by (simp add: select_columns_def split: list.splits)
  then show sub: "set names \<subseteq> set (columns d)"
    by (auto simp: filter_empty_conv)
  from assms none
  have "columns d' = concat (map (\<lambda>n. filter (\<lambda>c. c = n) (columns d)) names)"
    by (auto simp: select_columns_def)
  with sub show "set (columns d') = set names"
    by auto
qed

lemma df_prophet_labels:
  assumes "df_prophet h = Inr p"
  shows "set (columns p) = {''ds'', ''y''}"
  using assms select_columns_labels(1) [of "[''ds'', ''y'']"]
  by (auto simp: df_prophet_def dropna_def split: sum.splits)

lemma df_prophet_complete:
  assumes "df_prophet h = Inr p"
  shows "NaN \<notin> set (concat (map snd (rows p)))"
  using assms
  by (auto simp: df_prophet_def dropna_def complete_row_def split: sum.splits)

lemma forecast_fits:
  "filter is_prophet_fit (snd (get_forecast_data w h)) =
     (if empty h \<or> ''prcp'' \<notin> set (columns h) then []
      else case df_prophet h of
             Inl x \<Rightarrow> []
           | Inr p \<Rightarrow> if len p < 30 then [] else [Prophet_fit Prophet_args p])"
  by (simp add: get_forecast_data_def is_prophet_fit_def split: sum.splits)

lemma forecast_predicts:
  "length (filter is_prophet_predict (snd (get_forecast_data w h)))
     \<le> length (filter is_prophet_fit (snd (get_forecast_data w h)))"
  by (simp add: get_forecast_data_def is_prophet_fit_def is_prophet_predict_def
      split: sum.splits)

lemma forecast_other_events:
  "filter is_meteostat_fetch (snd (get_forecast_data w h)) = []"
  "filter is_requests_get (snd (get_forecast_data w h)) = []"
  "filter is_read_csv (snd (get_forecast_data w h)) = []"
  by (simp_all add: get_forecast_data_def is_meteostat_fetch_def is_requests_get_def
      is_read_csv_def split: sum.splits)

text \<open>
  C8: get_forecast_data returns the empty DataFrame without any call of Prophet when the
  historical frame is empty or has no column \<open>prcp\<close>, and when the series prepared from it
  (lines 86 to 90) has fewer than 30 rows; Prophet is fit only on a prepared series of at
  least 30 rows, and then exactly once.
\<close>

theorem forecast_needs_30_points:
  "(empty h \<or> ''prcp'' \<notin> set (columns h)
      \<longrightarrow> get_forecast_data w h = (Inr DataFrame, []))
   \<and> (\<forall>p. df_prophet h = Inr p \<and> len p < 30
          \<longrightarrow> fst (get_forecast_data w h) = Inr DataFrame
            \<and> count_events is_prophet_fit (snd (get_forecast_data w h)) = 0
            \<and> count_events is_prophet_predict (snd (get_forecast_data w h)) = 0)
   \<and> (0 < count_events is_prophet_fit (snd (get_forecast_data w h))
        \<longrightarrow> \<not> empty h \<and> ''prcp'' \<in> set (columns h)
          \<and> (\<exists>p. df_prophet h = Inr p \<and> 30 \<le> len p))
   \<and> (\<forall>p. \<not> empty h \<and> ''prcp'' \<in> set (columns h) \<and> df_prophet h = Inr p \<and> 30 \<le> len p
          \<longrightarrow> filter is_prophet_fit (snd (get_forecast_data w h))
              = [Prophet_fit Prophet_args p])"
proof -
  have a: "get_forecast_data w h = (Inr DataFrame, [])"
    if "empty h \<or> ''prcp'' \<notin> set (columns h)"
    using that by (auto simp: get_forecast_data_def)
  have b: "fst (get_forecast_data w h) = Inr DataFrame
            \<and> count_events is_prophet_fit (snd (get_forecast_data w h)) = 0
            \<and> count_events is_prophet_predict (snd (get_forecast_data w h)) = 0"
    if "df_prophet h = Inr p" and "len p < 30" for p
    using that
    by (simp add: get_forecast_data_def count_events_def is_prophet_fit_def
        is_prophet_predict_def)
  have c: "\<not> empty h \<and> ''prcp'' \<in> set (columns h)
          \<and> (\<exists>p. df_prophet h = Inr p \<and> 30 \<le> len p)"
    if "0 < count_events is_prophet_fit (snd (get_forecast_data w h))"
    using that
    by (auto simp: count_events_def forecast_fits split: if_splits sum.splits)
  have d: "filter is_prophet_fit (snd (get_forecast_data w h)) = [Prophet_fit Prophet_args p]"
    if "\<not> empty h" and "''prcp'' \<in> set (columns h)" and "df_prophet h = Inr p"
      and "30 \<le> len p" for p
    using that by (simp add: forecast_fits)
  from a b c d show ?thesis by blast
qed

theorem forecast_needs_30_points_witness:
  "empty DataFrame
   \<and> get_forecast_data world_online DataFrame = (Inr DataFrame, [])
   \<and> df_prophet (daily_frame 29) = Inr (prepared_frame 29)
   \<and> len (prepared_frame 29) < 30
   \<and> fst (get_forecast_data world_online (daily_frame 29)) = Inr DataFrame
   \<and> count_events is_prophet_fit (snd (get_forecast_data world_online (daily_frame 29))) = 0
   \<and> df_prophet (daily_frame 30) = Inr (prepared_frame 30)
   \<and> 30 \<le> len (prepared_frame 30)
   \<and> filter is_prophet_fit (snd (get_forecast_data world_online (daily_frame 30)))
       = [Prophet_fit Prophet_args (prepared_frame 30)]"
proof -
  have a: "empty DataFrame"
    by (simp add: empty_def DataFrame_def)
  have b: "df_prophet (daily_frame 29) = Inr (prepared_frame 29)"
    by code_simp
  have c: "len (prepared_frame 29) < 30"
    by code_simp
  have d: "df_prophet (daily_frame 30) = Inr (prepared_frame 30)"
    by code_simp
  have e: "30 \<le> len (prepared_frame 30)"
    by code_simp
  have f: "\<not> empty (daily_frame 30) \<and> ''prcp'' \<in> set (columns (daily_frame 30))"
    by (simp add: frame_eval)
  note t0 = forecast_needs_30_points [of DataFrame world_online]
  note t1 = forecast_needs_30_points [of "daily_frame 29" world_online]
  note t2 = forecast_needs_30_points [of "daily_frame 30" world_online]
  from t0 a have "get_forecast_data world_online DataFrame = (Inr DataFrame, [])"
    by blast
  moreover from t1 b c
  have "fst (get_forecast_data world_online (daily_frame 29)) = Inr DataFrame
        \<and> count_events is_prophet_fit (snd (get_forecast_data world_online (daily_frame 29))) = 0"
    by blast
  moreover from t2 d e f
  have "filter is_prophet_fit (snd (get_forecast_data world_online (daily_frame 30)))
       = [Prophet_fit Prophet_args (prepared_frame 30)]"
    by blast
  ultimately show ?thesis
    using a b c d e by blast
qed

section \<open>The prepared series and the historical frame\<close>

lemma filter_distinct_member:
  "distinct xs \<Longrightarrow> x \<in> set xs \<Longrightarrow> filter (\<lambda>c. c = x) xs = [x]"
proof (induction xs)
  case Nil
  then show ?case by simp
next
  case (Cons a xs)
  show ?case
  proof (cases "a = x")
    case True
    with Cons.prems have "x \<notin> set xs" by simp
    then have "filter (\<lambda>c. c = x) xs = []" by (auto simp: filter_empty_conv)
    with True show ?thesis by simp
  next
    case False
    with Cons show ?thesis by simp
  qed
qed

text \<open>For a frame as Meteostat gives it (index \<open>time\<close>, distinct labels, no column called
  \<open>ds\<close> or \<open>y\<close>), the prepared series has exactly the two columns \<open>ds\<close> and \<open>y\<close>.\<close>

lemma df_prophet_two_columns:
  assumes p: "df_prophet h = Inr p"
    and ix: "index_name h = Some ''time''"
    and di: "distinct (columns h)"
    and nds: "''ds'' \<notin> set (columns h)" and ny: "''y'' \<notin> set (columns h)"
  shows "columns p = [''ds'', ''y'']"
proof -
  define ren where
    "ren = (\<lambda>c. case [''time'' \<mapsto> ''ds'', ''prcp'' \<mapsto> ''y''] c of Some c' \<Rightarrow> c' | None \<Rightarrow> c)"
  have ren: "ren ''time'' = ''ds''" "ren ''prcp'' = ''y''"
    "\<And>c. c \<noteq> ''time'' \<Longrightarrow> c \<noteq> ''prcp'' \<Longrightarrow> ren c = c"
    by (simp_all add: ren_def)
  from p ix have nt: "''time'' \<notin> set (columns h)"
    by (auto simp: df_prophet_def reset_index_def Let_def split: sum.splits if_splits)
  from p obtain d where rd: "reset_index h = Inr d"
    by (cases "reset_index h") (simp_all add: df_prophet_def)
  from rd ix have d: "columns d = ''time'' # columns h"
    by (auto simp: reset_index_def Let_def split: if_splits)
  from p rd obtain d' where
    sel: "select_columns [''ds'', ''y'']
            (rename_columns [''time'' \<mapsto> ''ds'', ''prcp'' \<mapsto> ''y''] d) = Inr d'"
    and pd': "p = dropna d'"
    by (cases "select_columns [''ds'', ''y'']
                 (rename_columns [''time'' \<mapsto> ''ds'', ''prcp'' \<mapsto> ''y''] d)")
       (simp_all add: df_prophet_def)
  from pd' have pd: "columns p = columns d'"
    by (simp add: dropna_def)
  have cols: "columns (rename_columns [''time'' \<mapsto> ''ds'', ''prcp'' \<mapsto> ''y''] d)
                = ''ds'' # map ren (columns h)"
    unfolding rename_columns_def ren_def by (simp add: d)
  have ren_ds: "ren c \<noteq> ''ds''" if "c \<in> set (columns h)" for c
  proof -
    from that nt nds have "c \<noteq> ''time''" and "c \<noteq> ''ds''" by auto
    then show ?thesis by (cases "c = ''prcp''") (simp_all add: ren)
  qed
  have ren_y: "(ren c = ''y'') = (c = ''prcp'')" if "c \<in> set (columns h)" for c
  proof -
    from that nt ny have "c \<noteq> ''time''" and "c \<noteq> ''y''" by auto
    then show ?thesis by (cases "c = ''prcp''") (simp_all add: ren)
  qed
  from select_columns_labels(2) [OF sel] cols have "''y'' \<in> set (map ren (columns h))"
    by simp
  then obtain c where "c \<in> set (columns h)" and "ren c = ''y''"
    by auto
  with ren_y [of c] have prcp: "''prcp'' \<in> set (columns h)" by simp
  have f1: "filter (\<lambda>c. c = ''ds'') (map ren (columns h)) = []"
    using ren_ds by (auto simp: filter_empty_conv)
  have "filter (\<lambda>c. c = ''y'') (map ren (columns h))
          = map ren (filter (\<lambda>c. ren c = ''y'') (columns h))"
    by (simp add: filter_map comp_def)
  also have "filter (\<lambda>c. ren c = ''y'') (columns h) = filter (\<lambda>c. c = ''prcp'') (columns h)"
    by (rule filter_cong [OF refl]) (rule ren_y)
  also have "\<dots> = [''prcp'']"
    using di prcp by (rule filter_distinct_member)
  finally have f2: "filter (\<lambda>c. c = ''y'') (map ren (columns h)) = [''y'']"
    by (simp add: ren)
  from sel cols
  have "columns d' = filter (\<lambda>c. c = ''ds'') (''ds'' # map ren (columns h))
                    @ filter (\<lambda>c. c = ''y'') (''ds'' # map ren (columns h))"
    by (auto simp: select_columns_def split: list.splits)
  with f1 f2 pd show ?thesis by simp
qed

lemma zip_renamed_none:
  assumes "\<And>c. c \<in> set cols \<Longrightarrow> ren c \<noteq> n"
  shows "filter (\<lambda>(c, v). c = n) (zip (map ren cols) cs) = []"
proof -
  have "c \<noteq> n" if "(c, v) \<in> set (zip (map ren cols) cs)" for c v
  proof -
    from that have "c \<in> set (map ren cols)" by (rule set_zip_leftD)
    with assms show ?thesis by auto
  qed
  then show ?thesis by (auto simp: filter_empty_conv)
qed

lemma zip_renamed_one:
  assumes "\<And>c. c \<in> set cols \<Longrightarrow> (ren c = n) = (c = m)"
  shows "map snd (filter (\<lambda>(c, v). c = n) (zip (map ren cols) cs))
           = map snd (filter (\<lambda>(c, v). c = m) (zip cols cs))"
  using assms
proof (induction cols arbitrary: cs)
  case Nil
  then show ?case by simp
next
  case (Cons a cols)
  show ?case
  proof (cases cs)
    case Nil
    then show ?thesis by simp
  next
    case (Cons v vs)
    have "map snd (filter (\<lambda>(c, v). c = n) (zip (map ren cols) vs))
            = map snd (filter (\<lambda>(c, v). c = m) (zip cols vs))"
      by (rule Cons.IH) (simp add: Cons.prems)
    moreover have "(ren a = n) = (a = m)"
      by (rule Cons.prems) simp
    ultimately show ?thesis
      using Cons by simp
  qed
qed

text \<open>
  For a frame with the index \<open>time\<close> and distinct labels other than \<open>ds\<close> and \<open>y\<close>, the
  prepared series is the rows of the frame, numbered from 0, each reduced to its index
  label and its \<open>prcp\<close> cell, without the rows in which one of the two is missing.
\<close>

lemma df_prophet_rows:
  assumes p: "df_prophet h = Inr p"
    and ix: "index_name h = Some ''time''"
    and di: "distinct (columns h)"
    and nds: "''ds'' \<notin> set (columns h)" and ny: "''y'' \<notin> set (columns h)"
  shows "p = \<lparr>index_name = None, columns = [''ds'', ''y''],
              rows = filter (\<lambda>r. NaN \<notin> set (snd r))
                       (map (\<lambda>(k, (i, cs)).
                               (Num (of_nat k), i # pick_cells [''prcp''] (columns h) cs))
                            (enumerate 0 (rows h)))\<rparr>"
proof -
  define ren where
    "ren = (\<lambda>c. case [''time'' \<mapsto> ''ds'', ''prcp'' \<mapsto> ''y''] c of Some c' \<Rightarrow> c' | None \<Rightarrow> c)"
  have ren: "ren ''time'' = ''ds''" "ren ''prcp'' = ''y''"
    "\<And>c. c \<noteq> ''time'' \<Longrightarrow> c \<noteq> ''prcp'' \<Longrightarrow> ren c = c"
    by (simp_all add: ren_def)
  from p ix have nt: "''time'' \<notin> set (columns h)"
    by (auto simp: df_prophet_def reset_index_def Let_def split: sum.splits if_splits)
  have ren_ds: "ren c \<noteq> ''ds''" if "c \<in> set (columns h)" for c
  proof -
    from that nt nds have "c \<noteq> ''time''" and "c \<noteq> ''ds''" by auto
    then show ?thesis by (cases "c = ''prcp''") (simp_all add: ren)
  qed
  have ren_y: "(ren c = ''y'') = (c = ''prcp'')" if "c \<in> set (columns h)" for c
  proof -
    from that nt ny have "c \<noteq> ''time''" and "c \<noteq> ''y''" by auto
    then show ?thesis by (cases "c = ''prcp''") (simp_all add: ren)
  qed
  from p obtain d where rd: "reset_index h = Inr d"
    by (cases "reset_index h") (simp_all add: df_prophet_def)
  from rd ix nt have d: "d = \<lparr>index_name = None, columns = ''time'' # columns h,
                       rows = map (\<lambda>(k, (i, cs)). (Num (of_nat k), i # cs))
                                  (enumerate 0 (rows h))\<rparr>"
    by (auto simp: reset_index_def Let_def split: if_splits)
  from p rd obtain d' where
    sel: "select_columns [''ds'', ''y'']
            (rename_columns [''time'' \<mapsto> ''ds'', ''prcp'' \<mapsto> ''y''] d) = Inr d'"
    and pd: "p = dropna d'"
    by (cases "select_columns [''ds'', ''y'']
                 (rename_columns [''time'' \<mapsto> ''ds'', ''prcp'' \<mapsto> ''y''] d)")
       (simp_all add: df_prophet_def)
  have cols: "columns (rename_columns [''time'' \<mapsto> ''ds'', ''prcp'' \<mapsto> ''y''] d)
                = ''ds'' # map ren (columns h)"
    unfolding rename_columns_def ren_def by (simp add: d)
  have rws: "rows (rename_columns [''time'' \<mapsto> ''ds'', ''prcp'' \<mapsto> ''y''] d)
               = map (\<lambda>(k, (i, cs)). (Num (of_nat k), i # cs)) (enumerate 0 (rows h))"
    and ixn: "index_name (rename_columns [''time'' \<mapsto> ''ds'', ''prcp'' \<mapsto> ''y''] d) = None"
    by (simp_all add: rename_columns_def d)
  have two: "columns p = [''ds'', ''y'']"
    using p ix di nds ny by (rule df_prophet_two_columns)
  have pick: "pick_cells [''ds'', ''y''] (''ds'' # map ren (columns h)) (i # cs)
                = i # pick_cells [''prcp''] (columns h) cs" for i cs
    using zip_renamed_none [of "columns h" ren "''ds''" cs, OF ren_ds]
      zip_renamed_one [of "columns h" ren "''y''" "''prcp''" cs, OF ren_y]
    by (simp add: pick_cells_def)
  from sel cols
  have d': "d' = (rename_columns [''time'' \<mapsto> ''ds'', ''prcp'' \<mapsto> ''y''] d)
                   \<lparr>columns := columns d',
                    rows := map (\<lambda>(i, cs). (i, pick_cells [''ds'', ''y'']
                                                   (''ds'' # map ren (columns h)) cs))
                                (rows (rename_columns [''time'' \<mapsto> ''ds'', ''prcp'' \<mapsto> ''y''] d))\<rparr>"
    by (auto simp: select_columns_def split: list.splits)
  have rows_d': "rows d' = map (\<lambda>(k, (i, cs)).
                               (Num (of_nat k), i # pick_cells [''prcp''] (columns h) cs))
                            (enumerate 0 (rows h))"
    by (subst d') (simp add: rws pick split_def)
  have ix_d': "index_name d' = None"
    by (subst d') (simp add: ixn)
  from pd two rows_d' ix_d' show ?thesis
    by (simp add: dropna_def complete_row_def [abs_def])
qed

text \<open>The dates that Prophet reads from that series are the index labels of these rows.\<close>

lemma ds_dates_rows_labels:
  assumes "ds_dates_rows [''ds'', ''y'']
             (filter (\<lambda>r. NaN \<notin> set (snd r))
                (map (\<lambda>(k, (i, cs)). (Num (of_nat k), i # pick_cells [''prcp''] cols cs))
                     (enumerate n rs))) = Some dates"
  shows "map Date dates
           = map fst (filter (\<lambda>r. fst r \<noteq> NaN \<and> NaN \<notin> set (pick_cells [''prcp''] cols (snd r))) rs)"
  using assms
proof (induction rs arbitrary: n dates)
  case Nil
  then show ?case by simp
next
  case (Cons r rs)
  obtain i cs where r: "r = (i, cs)" by (cases r)
  show ?case
  proof (cases "i \<noteq> NaN \<and> NaN \<notin> set (pick_cells [''prcp''] cols cs)")
    case True
    have pk: "pick_cells [''ds''] [''ds'', ''y''] (i # pick_cells [''prcp''] cols cs) = [i]"
      by (cases "pick_cells [''prcp''] cols cs") (simp_all add: pick_cells_def)
    from Cons.prems r True pk obtain d ds where
      i: "i = Date d" and dates: "dates = d # ds"
      and rest: "ds_dates_rows [''ds'', ''y'']
             (filter (\<lambda>r. NaN \<notin> set (snd r))
                (map (\<lambda>(k, (i, cs)). (Num (of_nat k), i # pick_cells [''prcp''] cols cs))
                     (enumerate (Suc n) rs))) = Some ds"
      by (auto split: list.splits cell.splits option.splits)
    from Cons.IH [OF rest] r True i dates show ?thesis by simp
  next
    case False
    with Cons.prems r have "ds_dates_rows [''ds'', ''y'']
             (filter (\<lambda>r. NaN \<notin> set (snd r))
                (map (\<lambda>(k, (i, cs)). (Num (of_nat k), i # pick_cells [''prcp''] cols cs))
                     (enumerate (Suc n) rs))) = Some dates"
      by auto
    from Cons.IH [OF this] r False show ?thesis by auto
  qed
qed

lemma df_prophet_dates:
  assumes p: "df_prophet h = Inr p" and dt: "ds_dates p = Some dates"
    and ix: "index_name h = Some ''time''"
    and di: "distinct (columns h)"
    and nds: "''ds'' \<notin> set (columns h)" and ny: "''y'' \<notin> set (columns h)"
  shows "map Date dates
           = map fst (filter (\<lambda>r. fst r \<noteq> NaN
                                  \<and> NaN \<notin> set (pick_cells [''prcp''] (columns h) (snd r)))
                        (rows h))"
proof -
  note eq = df_prophet_rows [OF p ix di nds ny]
  from dt have "ds_dates_rows (columns p) (rows p) = Some dates"
    by (simp add: ds_dates_def)
  then have "ds_dates_rows [''ds'', ''y'']
             (filter (\<lambda>r. NaN \<notin> set (snd r))
                (map (\<lambda>(k, (i, cs)). (Num (of_nat k), i # pick_cells [''prcp''] (columns h) cs))
                     (enumerate 0 (rows h)))) = Some dates"
    by (subst (asm) (1 2) eq) simp
  then show ?thesis by (rule ds_dates_rows_labels)
qed


section \<open>The forecast horizon\<close>

lemma ds_dates_rows_ds_frame:
  "ds_dates_rows [''ds''] (map (\<lambda>(k, d). (Num (of_nat k), [Date d])) (enumerate n xs)) = Some xs"
  by (induction xs arbitrary: n) (simp_all add: pick_cells_def)

lemma ds_dates_ds_frame: "ds_dates (ds_frame xs) = Some xs"
  by (simp add: ds_dates_def ds_frame_def ds_dates_rows_ds_frame)

lemma ds_dates_rows_length:
  "ds_dates_rows cols rs = Some ds \<Longrightarrow> length ds = length rs"
proof (induction rs arbitrary: ds)
  case Nil
  then show ?case by simp
next
  case (Cons r rs)
  obtain i cs where r: "r = (i, cs)" by (cases r)
  from Cons.prems r obtain d ds' where "ds_dates_rows cols rs = Some ds'" and "ds = d # ds'"
    by (auto split: list.splits cell.splits option.splits)
  with Cons.IH show ?case by simp
qed

lemma prophet_fit_history:
  assumes "prophet_fit w a p = Inr m"
  shows "\<exists>dates. ds_dates p = Some dates \<and> length dates = len p \<and> 2 \<le> len p
           \<and> history_dates m = sort (remdups dates)"
  using assms
  by (auto simp: prophet_fit_def ds_dates_def len_def dest: ds_dates_rows_length
      split: if_splits option.splits sum.splits)

lemma fold_max_Max: "fold max xs (x::int) = Max (set (x # xs))"
  by (simp only: Max.set_eq_fold)

lemma make_future_dataframe_dates:
  assumes "make_future_dataframe m n = Inr future"
  shows "history_dates m \<noteq> []
         \<and> future = ds_frame (history_dates m
                              @ map (\<lambda>k. Max (set (history_dates m)) + int k) [1..<n + 1])"
proof (cases "history_dates m")
  case Nil
  with assms show ?thesis by (simp add: make_future_dataframe_def)
next
  case (Cons d ds)
  with assms show ?thesis
    by (auto simp: make_future_dataframe_def Let_def fold_max_Max)
qed

lemma prophet_predict_rows:
  assumes "prophet_predict w m (ds_frame xs) = Inr fc"
  shows "xs \<noteq> [] \<and> \<not> empty fc \<and> len fc = length xs
         \<and> map (\<lambda>r. take 1 (snd r)) (rows fc) = map (\<lambda>d. [Date d]) xs"
proof -
  from assms have ne: "xs \<noteq> []"
    by (auto simp: prophet_predict_def ds_dates_ds_frame split: if_splits option.splits)
  with assms have fc: "fc = \<lparr>index_name = None,
                         columns = ''ds'' # forecast_columns (params m),
                         rows = map (\<lambda>(k, d). (Num (of_nat k),
                                                Date d # forecast_row (params m) d))
                                    (enumerate 0 xs)\<rparr>"
    by (auto simp: prophet_predict_def ds_dates_ds_frame split: if_splits option.splits)
  have "map (\<lambda>r. take 1 (snd r))
          (map (\<lambda>(k, d). (Num (of_nat k), Date d # forecast_row (params m) d)) (enumerate n xs))
        = map (\<lambda>d. [Date d]) xs" for n
    by (induction xs arbitrary: n) simp_all
  moreover from ne have "enumerate 0 xs \<noteq> []"
    by (cases xs) simp_all
  ultimately show ?thesis
    using ne fc by (simp add: empty_def len_def)
qed

lemma Max_future:
  assumes "xs \<noteq> []"
  shows "Max (set (xs @ map (\<lambda>k. Max (set xs) + int k) [1..<16])) = Max (set xs) + (15::int)"
proof (rule Max_eqI)
  show "finite (set (xs @ map (\<lambda>k. Max (set xs) + int k) [1..<16]))" by simp
next
  fix y assume "y \<in> set (xs @ map (\<lambda>k. Max (set xs) + int k) [1..<16])"
  then consider "y \<in> set xs" | k where "y = Max (set xs) + int k" and "k < 16"
    by auto
  then show "y \<le> Max (set xs) + 15"
  proof cases
    case 1
    then have "y \<le> Max (set xs)" by simp
    then show ?thesis by simp
  next
    case 2
    then show ?thesis by simp
  qed
next
  have "(15::nat) \<in> set [1..<16]" by simp
  then have "Max (set xs) + int 15 \<in> (\<lambda>k. Max (set xs) + int k) ` set [1..<16]"
    by (rule imageI)
  then show "Max (set xs) + 15 \<in> set (xs @ map (\<lambda>k. Max (set xs) + int k) [1..<16])"
    by simp
qed


text \<open>
  C2, as the code has it: whenever get_forecast_data returns a non-empty forecast, it has
  fitted Prophet on the prepared series, asked for 15 further periods, and handed to
  predict the frame of the distinct dates of that series in order followed by exactly the
  15 days after the last of them; the forecast returned has one row for each date of that
  frame, and ends 15 days after the last date of the prepared series.  For a frame with
  the index \<open>time\<close> and distinct labels other than \<open>ds\<close> and \<open>y\<close>, the dates of the
  prepared series are the index labels of the rows of the historical frame in which
  neither the label nor \<open>prcp\<close> is missing: the horizon is counted from the last
  historical row that has a precipitation value.
\<close>

theorem forecast_horizon_15_days:
  assumes "fst (get_forecast_data w h) = Inr fc" and "\<not> empty fc"
  shows "\<exists>p dates. df_prophet h = Inr p \<and> ds_dates p = Some dates \<and> dates \<noteq> []
           \<and> (index_name h = Some ''time'' \<and> distinct (columns h)
                \<and> ''ds'' \<notin> set (columns h) \<and> ''y'' \<notin> set (columns h)
              \<longrightarrow> map Date dates
                    = map fst (filter (\<lambda>r. fst r \<noteq> NaN
                                  \<and> NaN \<notin> set (pick_cells [''prcp''] (columns h) (snd r)))
                                (rows h)))
           \<and> snd (get_forecast_data w h) =
               [Prophet_fit Prophet_args p, Prophet_make_future_dataframe 15,
                Prophet_predict
                  (ds_frame (sort (remdups dates)
                             @ map (\<lambda>k. Max (set dates) + int k) [1..<16]))]
           \<and> length (sort (remdups dates) @ map (\<lambda>k. Max (set dates) + int k) [1..<16])
               = length (sort (remdups dates)) + 15
           \<and> Max (set (sort (remdups dates) @ map (\<lambda>k. Max (set dates) + int k) [1..<16]))
               = Max (set dates) + 15
           \<and> map (\<lambda>r. take 1 (snd r)) (rows fc)
               = map (\<lambda>d. [Date d])
                   (sort (remdups dates) @ map (\<lambda>k. Max (set dates) + int k) [1..<16])"
proof -
  have ne: "fc \<noteq> DataFrame"
    using assms(2) by (auto simp: empty_def DataFrame_def)
  from assms(1) ne obtain p m future where
    p: "df_prophet h = Inr p" and big: "\<not> len p < 30"
    and m: "prophet_fit w Prophet_args p = Inr m"
    and fu: "make_future_dataframe m 15 = Inr future"
    and pr: "prophet_predict w m future = Inr fc"
    by (auto simp: get_forecast_data_def split: if_splits sum.splits)
  from p big m fu pr
  have tr: "snd (get_forecast_data w h) =
               [Prophet_fit Prophet_args p, Prophet_make_future_dataframe 15,
                Prophet_predict future]"
    using assms(1) ne
    by (auto simp: get_forecast_data_def split: if_splits sum.splits)
  from prophet_fit_history [OF m] obtain dates where
    d: "ds_dates p = Some dates" and ld: "length dates = len p"
    and hd: "history_dates m = sort (remdups dates)"
    by blast
  from ld big have dne: "dates \<noteq> []" by auto
  have sd: "set (sort (remdups dates)) = set dates" by simp
  from make_future_dataframe_dates [OF fu] hd sd
  have fut: "future = ds_frame (sort (remdups dates)
                                @ map (\<lambda>k. Max (set dates) + int k) [1..<16])"
    by simp
  from dne have sne: "sort (remdups dates) \<noteq> []"
    using sd by (metis set_empty)
  from Max_future [OF sne] sd
  have mx: "Max (set (sort (remdups dates) @ map (\<lambda>k. Max (set dates) + int k) [1..<16]))
               = Max (set dates) + 15"
    by simp
  from prophet_predict_rows [of w m _ fc] pr fut
  have rw: "map (\<lambda>r. take 1 (snd r)) (rows fc)
               = map (\<lambda>d. [Date d])
                   (sort (remdups dates) @ map (\<lambda>k. Max (set dates) + int k) [1..<16])"
    by simp
  have ln: "length (sort (remdups dates) @ map (\<lambda>k. Max (set dates) + int k) [1..<16])
               = length (sort (remdups dates)) + 15"
    by simp
  have lb: "index_name h = Some ''time'' \<and> distinct (columns h)
                \<and> ''ds'' \<notin> set (columns h) \<and> ''y'' \<notin> set (columns h)
              \<longrightarrow> map Date dates
                    = map fst (filter (\<lambda>r. fst r \<noteq> NaN
                                  \<and> NaN \<notin> set (pick_cells [''prcp''] (columns h) (snd r)))
                                (rows h))"
    using df_prophet_dates [OF p d] by blast
  from p d dne lb tr fut mx rw ln show ?thesis
    by blast
qed

theorem forecast_horizon_15_days_witness:
  "fst (get_forecast_data world_online gap_frame) = Inr gap_forecast
   \<and> \<not> empty gap_forecast
   \<and> index_name gap_frame = Some ''time'' \<and> distinct (columns gap_frame)
   \<and> ''ds'' \<notin> set (columns gap_frame) \<and> ''y'' \<notin> set (columns gap_frame)
   \<and> df_prophet gap_frame = Inr gap_prepared
   \<and> ds_dates gap_prepared = Some (map int ([0..<10] @ [12..<37]))
   \<and> Max (set (map int ([0..<10] @ [12..<37]))) = 36
   \<and> snd (get_forecast_data world_online gap_frame) =
       [Prophet_fit Prophet_args gap_prepared, Prophet_make_future_dataframe 15,
        Prophet_predict (ds_frame (map int ([0..<10] @ [12..<52])))]
   \<and> (\<exists>p dates. df_prophet gap_frame = Inr p \<and> ds_dates p = Some dates
         \<and> map Date dates
             = map fst (filter (\<lambda>r. fst r \<noteq> NaN
                           \<and> NaN \<notin> set (pick_cells [''prcp''] (columns gap_frame) (snd r)))
                         (rows gap_frame))
         \<and> Max (set (sort (remdups dates) @ map (\<lambda>k. Max (set dates) + int k) [1..<16]))
             = Max (set dates) + 15
         \<and> map (\<lambda>r. take 1 (snd r)) (rows gap_forecast)
             = map (\<lambda>d. [Date d])
                 (sort (remdups dates) @ map (\<lambda>k. Max (set dates) + int k) [1..<16]))"
proof -
  have a: "fst (get_forecast_data world_online gap_frame) = Inr gap_forecast"
    by code_simp
  have b: "\<not> empty gap_forecast"
    by code_simp
  have wf: "index_name gap_frame = Some ''time'' \<and> distinct (columns gap_frame)
            \<and> ''ds'' \<notin> set (columns gap_frame) \<and> ''y'' \<notin> set (columns gap_frame)"
    by (simp add: gap_frame_def)
  have c: "df_prophet gap_frame = Inr gap_prepared"
    by code_simp
  have d: "ds_dates gap_prepared = Some (map int ([0..<10] @ [12..<37]))"
    by code_simp
  have e: "Max (set (map int ([0..<10] @ [12..<37]))) = 36"
    by code_simp
  have f: "snd (get_forecast_data world_online gap_frame) =
       [Prophet_fit Prophet_args gap_prepared, Prophet_make_future_dataframe 15,
        Prophet_predict (ds_frame (map int ([0..<10] @ [12..<52])))]"
    by code_simp
  from forecast_horizon_15_days [OF a b] wf
  have "\<exists>p dates. df_prophet gap_frame = Inr p \<and> ds_dates p = Some dates
         \<and> map Date dates
             = map fst (filter (\<lambda>r. fst r \<noteq> NaN
                           \<and> NaN \<notin> set (pick_cells [''prcp''] (columns gap_frame) (snd r)))
                         (rows gap_frame))
         \<and> Max (set (sort (remdups dates) @ map (\<lambda>k. Max (set dates) + int k) [1..<16]))
             = Max (set dates) + 15
         \<and> map (\<lambda>r. take 1 (snd r)) (rows gap_forecast)
             = map (\<lambda>d. [Date d])
                 (sort (remdups dates) @ map (\<lambda>k. Max (set dates) + int k) [1..<16])"
    by blast
  with a b wf c d e f show ?thesis by (intro conjI) blast+
qed

text \<open>
  C2 as it is stated fails where the last days of the historical data have no
  precipitation value.  In the frame of 42 days, the last historical data point is day 41,
  and days 10, 11 and 37 to 41 lack \<open>prcp\<close>.  The rows with a missing value are dropped
  before the fit (line 90), so the future frame lacks the historical dates 10 and 11, its
  15 further days are the days 37 to 51, five of them historical, and the non-empty
  forecast ends on day 51: 10 days, not 15, after the last historical data point.
\<close>

theorem forecast_after_gap_counterexample:
  "fst (get_forecast_data world_online gap_frame) = Inr gap_forecast
   \<and> \<not> empty gap_forecast
   \<and> len gap_frame = 42
   \<and> last (rows gap_frame) = (Date 41, [Num 20, NaN])
   \<and> snd (get_forecast_data world_online gap_frame) =
       [Prophet_fit Prophet_args gap_prepared, Prophet_make_future_dataframe 15,
        Prophet_predict (ds_frame (map int ([0..<10] @ [12..<52])))]
   \<and> last (rows gap_forecast) = (Num 49, [Date 51, Num 0, Num 0, Num 1])
   \<and> (51::int) = 41 + 10
   \<and> (51::int) \<noteq> 41 + 15"
proof -
  have "fst (get_forecast_data world_online gap_frame) = Inr gap_forecast"
    by code_simp
  moreover have "\<not> empty gap_forecast"
    by code_simp
  moreover have "len gap_frame = 42"
    by code_simp
  moreover have "last (rows gap_frame) = (Date 41, [Num 20, NaN])"
    by code_simp
  moreover have "snd (get_forecast_data world_online gap_frame) =
       [Prophet_fit Prophet_args gap_prepared, Prophet_make_future_dataframe 15,
        Prophet_predict (ds_frame (map int ([0..<10] @ [12..<52])))]"
    by code_simp
  moreover have "last (rows gap_forecast) = (Num 49, [Date 51, Num 0, Num 0, Num 1])"
    by code_simp
  ultimately show ?thesis by simp
qed


section \<open>Properties of a run\<close>

lemma api_key_trace:
  "filter is_meteostat_fetch (snd (OPENWEATHER_API_KEY w)) = []"
  "filter is_requests_get (snd (OPENWEATHER_API_KEY w)) = []"
  "filter is_prophet_fit (snd (OPENWEATHER_API_KEY w)) = []"
  "filter is_prophet_predict (snd (OPENWEATHER_API_KEY w)) = []"
  by (simp_all add: OPENWEATHER_API_KEY_def is_meteostat_fetch_def is_requests_get_def
      is_prophet_fit_def is_prophet_predict_def split: option.splits)

lemma read_fallback_other_events:
  "filter is_requests_get (snd (read_fallback w t)) = filter is_requests_get t"
  "filter is_prophet_fit (snd (read_fallback w t)) = filter is_prophet_fit t"
  "filter is_prophet_predict (snd (read_fallback w t)) = filter is_prophet_predict t"
  by (simp_all add: read_fallback_def is_requests_get_def is_prophet_fit_def
      is_prophet_predict_def split: sum.splits)

lemma historical_other_events:
  "filter is_requests_get (snd (get_historical_data w lat lon s e)) = []"
  "filter is_prophet_fit (snd (get_historical_data w lat lon s e)) = []"
  "filter is_prophet_predict (snd (get_historical_data w lat lon s e)) = []"
  by (simp_all add: get_historical_data_def Let_def read_fallback_other_events
      is_requests_get_def is_prophet_fit_def is_prophet_predict_def split: sum.splits)

lemma shown_again:
  "filter is_meteostat_fetch (map St shown) = []"
  "filter is_requests_get (map St shown) = []"
  "filter is_prophet_fit (map St shown) = []"
  "filter is_prophet_predict (map St shown) = []"
  by (induction shown)
     (simp_all add: is_meteostat_fetch_def is_requests_get_def is_prophet_fit_def
      is_prophet_predict_def)

lemma cached_result:
  "fst (cached_get_historical_data w c lat lon s e) =
     (case c (lat, lon, s, e) of
        Some (df, shown) \<Rightarrow> (Inr df, map St shown)
      | None \<Rightarrow> get_historical_data w lat lon s e)"
  by (simp add: cached_get_historical_data_def split: option.splits prod.splits sum.splits)

lemma cached_fetches:
  "filter is_meteostat_fetch (snd (fst (cached_get_historical_data w c lat lon s e))) =
     (case c (lat, lon, s, e) of
        Some x \<Rightarrow> []
      | None \<Rightarrow> [Meteostat_fetch lat lon 327 s e])"
  by (simp add: cached_result shown_again historical_fetches_once split: option.splits)

lemma cached_other_events:
  "filter is_requests_get (snd (fst (cached_get_historical_data w c lat lon s e))) = []"
  "filter is_prophet_fit (snd (fst (cached_get_historical_data w c lat lon s e))) = []"
  "filter is_prophet_predict (snd (fst (cached_get_historical_data w c lat lon s e))) = []"
  by (simp_all add: cached_result shown_again historical_other_events split: option.splits)

text \<open>The trace of a run is the traces of its four steps one after the other, as far as
  the run gets.\<close>

lemma run_trace_steps:
  "run_trace w c =
     snd (OPENWEATHER_API_KEY w)
     @ snd (fst (cached_get_historical_data w c JAMMU_LAT JAMMU_LON (Datetime 2020 1 1 0) (now w)))
     @ (case fst (fst (cached_get_historical_data w c JAMMU_LAT JAMMU_LON
                         (Datetime 2020 1 1 0) (now w))) of
          Inl x \<Rightarrow> []
        | Inr h \<Rightarrow>
            snd (get_forecast_data w h)
            @ (case fst (get_forecast_data w h) of
                 Inl x \<Rightarrow> []
               | Inr f \<Rightarrow>
                   snd (get_real_time_data w (fst (OPENWEATHER_API_KEY w)) JAMMU_LAT JAMMU_LON)))"
  by (simp add: run_trace_def run_def split: prod.splits sum.splits)

lemma run_fetches:
  "filter is_meteostat_fetch (run_trace w c) =
     (case c (JAMMU_LAT, JAMMU_LON, Datetime 2020 1 1 0, now w) of
        Some x \<Rightarrow> []
      | None \<Rightarrow> [Meteostat_fetch JAMMU_LAT JAMMU_LON 327 (Datetime 2020 1 1 0) (now w)])"
  by (simp add: run_trace_steps api_key_trace cached_fetches forecast_other_events
      real_time_other_events split: sum.splits)

lemma run_requests:
  "filter is_requests_get (run_trace w c) =
     (case fst (fst (cached_get_historical_data w c JAMMU_LAT JAMMU_LON
                       (Datetime 2020 1 1 0) (now w))) of
        Inl x \<Rightarrow> []
      | Inr h \<Rightarrow>
          (case fst (get_forecast_data w h) of
             Inl x \<Rightarrow> []
           | Inr f \<Rightarrow>
               (case fst (OPENWEATHER_API_KEY w) of
                  None \<Rightarrow> []
                | Some k \<Rightarrow>
                    if k = [] then []
                    else [Requests_get (weather_url w k JAMMU_LAT JAMMU_LON) 10])))"
  by (simp add: run_trace_steps api_key_trace cached_other_events forecast_other_events
      real_time_requests split: sum.splits)

lemma run_fits:
  "filter is_prophet_fit (run_trace w c) =
     (case fst (fst (cached_get_historical_data w c JAMMU_LAT JAMMU_LON
                       (Datetime 2020 1 1 0) (now w))) of
        Inl x \<Rightarrow> []
      | Inr h \<Rightarrow> filter is_prophet_fit (snd (get_forecast_data w h)))"
  by (simp add: run_trace_steps api_key_trace cached_other_events real_time_other_events
      split: sum.splits)

lemma run_predicts:
  "filter is_prophet_predict (run_trace w c) =
     (case fst (fst (cached_get_historical_data w c JAMMU_LAT JAMMU_LON
                       (Datetime 2020 1 1 0) (now w))) of
        Inl x \<Rightarrow> []
      | Inr h \<Rightarrow> filter is_prophet_predict (snd (get_forecast_data w h)))"
  by (simp add: run_trace_steps api_key_trace cached_other_events real_time_other_events
      split: sum.splits)

lemma in_filter:
  "ev \<in> set t \<Longrightarrow> P ev \<Longrightarrow> ev \<in> set (filter P t)"
  by simp

text \<open>
  C3: in a run, every fetch from Meteostat is made for latitude 32.73 and longitude
  74.86, the constants JAMMU_LAT and JAMMU_LON, and every request to OpenWeather is made
  on the URL that carries these two coordinates; the trace of the run holds no fetch for
  other coordinates.
\<close>

theorem fetches_for_jammu_only:
  "JAMMU_LAT = 32.73 \<and> JAMMU_LON = 74.86
   \<and> (\<forall>lat lon alt s e. Meteostat_fetch lat lon alt s e \<in> set (run_trace w cache)
          \<longrightarrow> lat = 32.73 \<and> lon = 74.86)
   \<and> (\<forall>u t. Requests_get u t \<in> set (run_trace w cache)
          \<longrightarrow> (\<exists>k. u = ''https://api.openweathermap.org/data/2.5/weather?lat=''
                        @ str_float w 32.73 @ ''&lon='' @ str_float w 74.86
                        @ ''&appid='' @ k @ ''&units=metric''))"
proof -
  have "lat = 32.73 \<and> lon = 74.86"
    if "Meteostat_fetch lat lon alt s e \<in> set (run_trace w cache)" for lat lon alt s e
  proof -
    from that have "Meteostat_fetch lat lon alt s e \<in> set (filter is_meteostat_fetch (run_trace w cache))"
      by (rule in_filter) (simp add: is_meteostat_fetch_def)
    then show ?thesis
      by (simp add: run_fetches JAMMU_LAT_def JAMMU_LON_def split: option.splits)
  qed
  moreover have "\<exists>k. u = ''https://api.openweathermap.org/data/2.5/weather?lat=''
                        @ str_float w 32.73 @ ''&lon='' @ str_float w 74.86
                        @ ''&appid='' @ k @ ''&units=metric''"
    if "Requests_get u t \<in> set (run_trace w cache)" for u t
  proof -
    from that have "Requests_get u t \<in> set (filter is_requests_get (run_trace w cache))"
      by (rule in_filter) (simp add: is_requests_get_def)
    then show ?thesis
      by (auto simp: run_requests weather_url_def JAMMU_LAT_def JAMMU_LON_def
          split: option.splits sum.splits if_splits)
  qed
  ultimately show ?thesis
    by (simp add: JAMMU_LAT_def JAMMU_LON_def)
qed

theorem fetches_for_jammu_only_witness:
  "run_trace world_online no_cache =
     [St (Info ''Fetching historical data from Meteostat...''),
      Meteostat_fetch 32.73 74.86 327 (Datetime 2020 1 1 0) (Datetime 2026 11 4 0),
      St (Success ''Successfully fetched historical data from Meteostat.''),
      Prophet_fit Prophet_args (prepared_frame 40),
      Prophet_make_future_dataframe 15,
      Prophet_predict (ds_frame (map int [0..<55])),
      Requests_get
        ''https://api.openweathermap.org/data/2.5/weather?lat=32.73&lon=74.86&appid=k3y&units=metric''
        10]
   \<and> Meteostat_fetch 32.73 74.86 327 (Datetime 2020 1 1 0) (Datetime 2026 11 4 0)
       \<in> set (run_trace world_online no_cache)
   \<and> Requests_get
        ''https://api.openweathermap.org/data/2.5/weather?lat=32.73&lon=74.86&appid=k3y&units=metric''
        10 \<in> set (run_trace world_online no_cache)
   \<and> (\<exists>k. ''https://api.openweathermap.org/data/2.5/weather?lat=32.73&lon=74.86&appid=k3y&units=metric''
          = ''https://api.openweathermap.org/data/2.5/weather?lat=''
            @ str_float world_online 32.73 @ ''&lon='' @ str_float world_online 74.86
            @ ''&appid='' @ k @ ''&units=metric'')"
proof -
  have a: "run_trace world_online no_cache =
     [St (Info ''Fetching historical data from Meteostat...''),
      Meteostat_fetch 32.73 74.86 327 (Datetime 2020 1 1 0) (Datetime 2026 11 4 0),
      St (Success ''Successfully fetched historical data from Meteostat.''),
      Prophet_fit Prophet_args (prepared_frame 40),
      Prophet_make_future_dataframe 15,
      Prophet_predict (ds_frame (map int [0..<55])),
      Requests_get
        ''https://api.openweathermap.org/data/2.5/weather?lat=32.73&lon=74.86&appid=k3y&units=metric''
        10]"
    by code_simp
  then have b: "Meteostat_fetch 32.73 74.86 327 (Datetime 2020 1 1 0) (Datetime 2026 11 4 0)
       \<in> set (run_trace world_online no_cache)"
    and c: "Requests_get
        ''https://api.openweathermap.org/data/2.5/weather?lat=32.73&lon=74.86&appid=k3y&units=metric''
        10 \<in> set (run_trace world_online no_cache)"
    by simp_all
  from fetches_for_jammu_only [of world_online no_cache] c
  have "\<exists>k. ''https://api.openweathermap.org/data/2.5/weather?lat=32.73&lon=74.86&appid=k3y&units=metric''
          = ''https://api.openweathermap.org/data/2.5/weather?lat=''
            @ str_float world_online 32.73 @ ''&lon='' @ str_float world_online 74.86
            @ ''&appid='' @ k @ ''&units=metric''"
    by blast
  with a b c show ?thesis by blast
qed


section \<open>The series handed to Prophet\<close>

lemma run_fits_once_iff:
  "(count_events is_prophet_fit (run_trace w cache) = 1)
     = (\<exists>h p. fst (fst (cached_get_historical_data w cache JAMMU_LAT JAMMU_LON
                           (Datetime 2020 1 1 0) (now w))) = Inr h
              \<and> \<not> empty h \<and> ''prcp'' \<in> set (columns h)
              \<and> df_prophet h = Inr p \<and> 30 \<le> len p)"
proof (cases "fst (fst (cached_get_historical_data w cache JAMMU_LAT JAMMU_LON
                           (Datetime 2020 1 1 0) (now w)))")
  case (Inl x)
  then show ?thesis by (simp add: count_events_def run_fits)
next
  case (Inr h)
  show ?thesis
  proof (cases "df_prophet h")
    case (Inl y)
    with Inr show ?thesis by (simp add: count_events_def run_fits forecast_fits)
  next
    case p: (Inr p)
    with Inr show ?thesis
      by (auto simp: count_events_def run_fits forecast_fits not_less)
  qed
qed

text \<open>
  C7: a run fits Prophet at most once (exactly once when the historical frame passes the
  guards of get_forecast_data, not at all otherwise) and calls predict at most once, and
  only after a fit; the frame that is fitted is the series prepared from the historical
  frame of the run by lines 86 to 90: its column labels are \<open>ds\<close> and \<open>y\<close>, none of its
  cells is missing, and it has at least 30 rows.  For a historical frame with the index
  \<open>time\<close> and distinct labels other than \<open>ds\<close> and \<open>y\<close>, it is exactly the two-column
  frame of the rows of the historical frame, each reduced to its index label (\<open>ds\<close>) and
  its \<open>prcp\<close> cell (\<open>y\<close>), without the rows in which one of the two is missing.
\<close>

theorem prophet_used_at_most_once:
  "count_events is_prophet_fit (run_trace w cache) \<le> 1
   \<and> (count_events is_prophet_fit (run_trace w cache) = 1)
       = (\<exists>h p. fst (fst (cached_get_historical_data w cache JAMMU_LAT JAMMU_LON
                             (Datetime 2020 1 1 0) (now w))) = Inr h
                \<and> \<not> empty h \<and> ''prcp'' \<in> set (columns h)
                \<and> df_prophet h = Inr p \<and> 30 \<le> len p)
   \<and> count_events is_prophet_predict (run_trace w cache)
       \<le> count_events is_prophet_fit (run_trace w cache)
   \<and> (\<forall>a p. Prophet_fit a p \<in> set (run_trace w cache)
          \<longrightarrow> a = Prophet_args
            \<and> (\<exists>h. fst (fst (cached_get_historical_data w cache JAMMU_LAT JAMMU_LON
                                (Datetime 2020 1 1 0) (now w))) = Inr h
                   \<and> df_prophet h = Inr p
                   \<and> (index_name h = Some ''time'' \<and> distinct (columns h)
                        \<and> ''ds'' \<notin> set (columns h) \<and> ''y'' \<notin> set (columns h)
                      \<longrightarrow> columns p = [''ds'', ''y'']
                        \<and> p = \<lparr>index_name = None, columns = [''ds'', ''y''],
                                 rows = filter (\<lambda>r. NaN \<notin> set (snd r))
                                          (map (\<lambda>(k, (i, cs)).
                                                  (Num (of_nat k),
                                                   i # pick_cells [''prcp''] (columns h) cs))
                                               (enumerate 0 (rows h)))\<rparr>))
            \<and> set (columns p) = {''ds'', ''y''}
            \<and> NaN \<notin> set (concat (map snd (rows p)))
            \<and> 30 \<le> len p)"
proof -
  have fit1: "count_events is_prophet_fit (run_trace w cache) \<le> 1"
    by (simp add: count_events_def run_fits forecast_fits split: sum.splits)
  have pred: "count_events is_prophet_predict (run_trace w cache)
                \<le> count_events is_prophet_fit (run_trace w cache)"
    by (simp add: count_events_def run_fits run_predicts forecast_predicts split: sum.splits)
  have step: "a = Prophet_args
            \<and> (\<exists>h. fst (fst (cached_get_historical_data w cache JAMMU_LAT JAMMU_LON
                                (Datetime 2020 1 1 0) (now w))) = Inr h
                   \<and> df_prophet h = Inr p
                   \<and> (index_name h = Some ''time'' \<and> distinct (columns h)
                        \<and> ''ds'' \<notin> set (columns h) \<and> ''y'' \<notin> set (columns h)
                      \<longrightarrow> columns p = [''ds'', ''y'']
                        \<and> p = \<lparr>index_name = None, columns = [''ds'', ''y''],
                                 rows = filter (\<lambda>r. NaN \<notin> set (snd r))
                                          (map (\<lambda>(k, (i, cs)).
                                                  (Num (of_nat k),
                                                   i # pick_cells [''prcp''] (columns h) cs))
                                               (enumerate 0 (rows h)))\<rparr>))
            \<and> set (columns p) = {''ds'', ''y''}
            \<and> NaN \<notin> set (concat (map snd (rows p)))
            \<and> 30 \<le> len p"
    if "Prophet_fit a p \<in> set (run_trace w cache)" for a p
  proof -
    from that have "Prophet_fit a p \<in> set (filter is_prophet_fit (run_trace w cache))"
      by (rule in_filter) (simp add: is_prophet_fit_def)
    then obtain h where
      h: "fst (fst (cached_get_historical_data w cache JAMMU_LAT JAMMU_LON
                      (Datetime 2020 1 1 0) (now w))) = Inr h"
      and ev: "Prophet_fit a p \<in> set (filter is_prophet_fit (snd (get_forecast_data w h)))"
      by (cases "fst (fst (cached_get_historical_data w cache JAMMU_LAT JAMMU_LON
                      (Datetime 2020 1 1 0) (now w)))") (simp_all add: run_fits)
    from ev obtain q where q: "df_prophet h = Inr q" and n': "\<not> len q < 30"
      and eq: "Prophet_fit a p = Prophet_fit Prophet_args q"
      by (cases "df_prophet h") (auto simp: forecast_fits split: if_splits)
    from q n' eq have a: "a = Prophet_args" and p: "df_prophet h = Inr p" and n: "30 \<le> len p"
      by simp_all
    have "index_name h = Some ''time'' \<and> distinct (columns h)
                        \<and> ''ds'' \<notin> set (columns h) \<and> ''y'' \<notin> set (columns h)
                      \<longrightarrow> columns p = [''ds'', ''y'']
                        \<and> p = \<lparr>index_name = None, columns = [''ds'', ''y''],
                                 rows = filter (\<lambda>r. NaN \<notin> set (snd r))
                                          (map (\<lambda>(k, (i, cs)).
                                                  (Num (of_nat k),
                                                   i # pick_cells [''prcp''] (columns h) cs))
                                               (enumerate 0 (rows h)))\<rparr>"
    proof (intro impI conjI)
      assume wf: "index_name h = Some ''time'' \<and> distinct (columns h)
                        \<and> ''ds'' \<notin> set (columns h) \<and> ''y'' \<notin> set (columns h)"
      from wf show "columns p = [''ds'', ''y'']"
        by (intro df_prophet_two_columns [OF p]) simp_all
      from wf show "p = \<lparr>index_name = None, columns = [''ds'', ''y''],
                                 rows = filter (\<lambda>r. NaN \<notin> set (snd r))
                                          (map (\<lambda>(k, (i, cs)).
                                                  (Num (of_nat k),
                                                   i # pick_cells [''prcp''] (columns h) cs))
                                               (enumerate 0 (rows h)))\<rparr>"
        by (intro df_prophet_rows [OF p]) simp_all
    qed
    with h p have "\<exists>h. fst (fst (cached_get_historical_data w cache JAMMU_LAT JAMMU_LON
                                (Datetime 2020 1 1 0) (now w))) = Inr h
                   \<and> df_prophet h = Inr p
                   \<and> (index_name h = Some ''time'' \<and> distinct (columns h)
                        \<and> ''ds'' \<notin> set (columns h) \<and> ''y'' \<notin> set (columns h)
                      \<longrightarrow> columns p = [''ds'', ''y'']
                        \<and> p = \<lparr>index_name = None, columns = [''ds'', ''y''],
                                 rows = filter (\<lambda>r. NaN \<notin> set (snd r))
                                          (map (\<lambda>(k, (i, cs)).
                                                  (Num (of_nat k),
                                                   i # pick_cells [''prcp''] (columns h) cs))
                                               (enumerate 0 (rows h)))\<rparr>)"
      by (intro exI [of _ h] conjI)
    with a df_prophet_labels [OF p] df_prophet_complete [OF p] n
    show ?thesis by (intro conjI)
  qed
  have fitted: "\<forall>a p. Prophet_fit a p \<in> set (run_trace w cache)
          \<longrightarrow> a = Prophet_args
            \<and> (\<exists>h. fst (fst (cached_get_historical_data w cache JAMMU_LAT JAMMU_LON
                                (Datetime 2020 1 1 0) (now w))) = Inr h
                   \<and> df_prophet h = Inr p
                   \<and> (index_name h = Some ''time'' \<and> distinct (columns h)
                        \<and> ''ds'' \<notin> set (columns h) \<and> ''y'' \<notin> set (columns h)
                      \<longrightarrow> columns p = [''ds'', ''y'']
                        \<and> p = \<lparr>index_name = None, columns = [''ds'', ''y''],
                                 rows = filter (\<lambda>r. NaN \<notin> set (snd r))
                                          (map (\<lambda>(k, (i, cs)).
                                                  (Num (of_nat k),
                                                   i # pick_cells [''prcp''] (columns h) cs))
                                               (enumerate 0 (rows h)))\<rparr>))
            \<and> set (columns p) = {''ds'', ''y''}
            \<and> NaN \<notin> set (concat (map snd (rows p)))
            \<and> 30 \<le> len p"
    by (intro allI impI) (rule step)
  from fit1 run_fits_once_iff [of w cache] pred fitted show ?thesis
    by (intro conjI)
qed

theorem prophet_used_at_most_once_witness:
  "Prophet_fit Prophet_args gap_prepared \<in> set (run_trace world_gaps no_cache)
   \<and> fst (fst (cached_get_historical_data world_gaps no_cache JAMMU_LAT JAMMU_LON
                  (Datetime 2020 1 1 0) (now world_gaps))) = Inr gap_frame
   \<and> index_name gap_frame = Some ''time'' \<and> distinct (columns gap_frame)
   \<and> ''ds'' \<notin> set (columns gap_frame) \<and> ''y'' \<notin> set (columns gap_frame)
   \<and> count_events is_prophet_fit (run_trace world_gaps no_cache) = 1
   \<and> count_events is_prophet_predict (run_trace world_gaps no_cache) = 1
   \<and> len gap_frame = 42
   \<and> len gap_prepared = 35
   \<and> NaN \<notin> set (concat (map snd (rows gap_prepared)))
   \<and> gap_prepared = \<lparr>index_name = None, columns = [''ds'', ''y''],
                       rows = filter (\<lambda>r. NaN \<notin> set (snd r))
                                (map (\<lambda>(k, (i, cs)).
                                        (Num (of_nat k),
                                         i # pick_cells [''prcp''] (columns gap_frame) cs))
                                     (enumerate 0 (rows gap_frame)))\<rparr>"
proof -
  have a: "Prophet_fit Prophet_args gap_prepared \<in> set (run_trace world_gaps no_cache)"
    by code_simp
  have h: "fst (fst (cached_get_historical_data world_gaps no_cache JAMMU_LAT JAMMU_LON
                  (Datetime 2020 1 1 0) (now world_gaps))) = Inr gap_frame"
    by code_simp
  have wf: "index_name gap_frame = Some ''time'' \<and> distinct (columns gap_frame)
            \<and> ''ds'' \<notin> set (columns gap_frame) \<and> ''y'' \<notin> set (columns gap_frame)"
    by (simp add: gap_frame_def)
  have b: "count_events is_prophet_fit (run_trace world_gaps no_cache) = 1"
    by code_simp
  have c: "count_events is_prophet_predict (run_trace world_gaps no_cache) = 1"
    by code_simp
  have d: "len gap_frame = 42"
    by code_simp
  have e: "len gap_prepared = 35"
    by code_simp
  note t = prophet_used_at_most_once [of world_gaps no_cache, THEN conjunct2,
               THEN conjunct2, THEN conjunct2, THEN spec, THEN spec, THEN mp, OF a]
  from t [THEN conjunct2, THEN conjunct1]
  obtain h' where h': "fst (fst (cached_get_historical_data world_gaps no_cache JAMMU_LAT
                              JAMMU_LON (Datetime 2020 1 1 0) (now world_gaps))) = Inr h'"
    and eq: "index_name h' = Some ''time'' \<and> distinct (columns h')
               \<and> ''ds'' \<notin> set (columns h') \<and> ''y'' \<notin> set (columns h')
             \<longrightarrow> columns gap_prepared = [''ds'', ''y'']
               \<and> gap_prepared = \<lparr>index_name = None, columns = [''ds'', ''y''],
                       rows = filter (\<lambda>r. NaN \<notin> set (snd r))
                                (map (\<lambda>(k, (i, cs)).
                                        (Num (of_nat k),
                                         i # pick_cells [''prcp''] (columns h') cs))
                                     (enumerate 0 (rows h')))\<rparr>"
    by (elim exE conjE)
  note f = t [THEN conjunct2, THEN conjunct2, THEN conjunct2, THEN conjunct1]
  from h h' have "h' = gap_frame" by simp
  with eq wf
  have "columns gap_prepared = [''ds'', ''y'']
               \<and> gap_prepared = \<lparr>index_name = None, columns = [''ds'', ''y''],
                       rows = filter (\<lambda>r. NaN \<notin> set (snd r))
                                (map (\<lambda>(k, (i, cs)).
                                        (Num (of_nat k),
                                         i # pick_cells [''prcp''] (columns gap_frame) cs))
                                     (enumerate 0 (rows gap_frame)))\<rparr>"
    by simp
  then have g: "gap_prepared = \<lparr>index_name = None, columns = [''ds'', ''y''],
                       rows = filter (\<lambda>r. NaN \<notin> set (snd r))
                                (map (\<lambda>(k, (i, cs)).
                                        (Num (of_nat k),
                                         i # pick_cells [''prcp''] (columns gap_frame) cs))
                                     (enumerate 0 (rows gap_frame)))\<rparr>"
    by (rule conjunct2)
  from wf have wf1: "index_name gap_frame = Some ''time''" and wf2: "distinct (columns gap_frame)"
    and wf3: "''ds'' \<notin> set (columns gap_frame)" and wf4: "''y'' \<notin> set (columns gap_frame)"
    by simp_all
  from a h wf1 wf2 wf3 wf4 b c d e f g show ?thesis by (intro conjI)
qed

section \<open>The fetches of a run\<close>

text \<open>
  C5, as the code has it: a run in which the body of get_historical_data is executed (no
  entry of the cache for its arguments) makes exactly one fetch from Meteostat and at most
  one request to OpenWeather: exactly one when the key is not empty and the two earlier
  steps return, none otherwise.  get_real_time_data reads no fallback and makes no second
  request; it returns None without any request when the key is missing or empty, and
  returns None when the request raises a RequestException, answers with an error status,
  or has a body whose decoding raises a RequestException.
\<close>

theorem run_fetch_counts:
  assumes "cache (JAMMU_LAT, JAMMU_LON, Datetime 2020 1 1 0, now w) = None"
  shows "count_events is_meteostat_fetch (run_trace w cache) = 1
       \<and> count_events is_requests_get (run_trace w cache) \<le> 1
       \<and> ((count_events is_requests_get (run_trace w cache) = 1)
            = (\<exists>k h f. fst (OPENWEATHER_API_KEY w) = Some k \<and> k \<noteq> []
                 \<and> fst (get_historical_data w JAMMU_LAT JAMMU_LON (Datetime 2020 1 1 0) (now w))
                     = Inr h
                 \<and> fst (get_forecast_data w h) = Inr f))
       \<and> count_events is_read_csv (snd (get_real_time_data w key lat lon)) = 0
       \<and> count_events is_requests_get (snd (get_real_time_data w key lat lon)) \<le> 1
       \<and> (key = None \<or> key = Some [] \<longrightarrow> get_real_time_data w key lat lon = (Inr None, []))
       \<and> (\<forall>k x. key = Some k \<and> k \<noteq> []
               \<and> requests_get w (weather_url w k lat lon) 10 = Inl x \<and> is_RequestException x
             \<longrightarrow> fst (get_real_time_data w key lat lon) = Inr None)
       \<and> (\<forall>k r. key = Some k \<and> k \<noteq> []
               \<and> requests_get w (weather_url w k lat lon) 10 = Inr r
               \<and> 400 \<le> status_code r \<and> status_code r < 600
             \<longrightarrow> fst (get_real_time_data w key lat lon) = Inr None)
       \<and> (\<forall>k r x. key = Some k \<and> k \<noteq> []
               \<and> requests_get w (weather_url w k lat lon) 10 = Inr r
               \<and> \<not> (400 \<le> status_code r \<and> status_code r < 600)
               \<and> json_body r = Inl x \<and> is_RequestException x
             \<longrightarrow> fst (get_real_time_data w key lat lon) = Inr None)"
proof -
  have miss: "fst (cached_get_historical_data w cache JAMMU_LAT JAMMU_LON (Datetime 2020 1 1 0) (now w))
                = get_historical_data w JAMMU_LAT JAMMU_LON (Datetime 2020 1 1 0) (now w)"
    using assms by (simp add: cached_result)
  have a: "count_events is_meteostat_fetch (run_trace w cache) = 1"
    using assms by (simp add: count_events_def run_fetches)
  have b: "count_events is_requests_get (run_trace w cache) \<le> 1"
    by (simp add: count_events_def run_requests split: sum.splits option.splits)
  have c: "(count_events is_requests_get (run_trace w cache) = 1)
            = (\<exists>k h f. fst (OPENWEATHER_API_KEY w) = Some k \<and> k \<noteq> []
                 \<and> fst (get_historical_data w JAMMU_LAT JAMMU_LON (Datetime 2020 1 1 0) (now w))
                     = Inr h
                 \<and> fst (get_forecast_data w h) = Inr f)"
    by (auto simp: count_events_def run_requests miss split: sum.splits option.splits)
  have d: "count_events is_read_csv (snd (get_real_time_data w key lat lon)) = 0"
    by (simp add: count_events_def real_time_other_events)
  have e: "count_events is_requests_get (snd (get_real_time_data w key lat lon)) \<le> 1"
    by (simp add: count_events_def real_time_requests split: option.splits)
  have f: "get_real_time_data w key lat lon = (Inr None, [])" if "key = None \<or> key = Some []"
    using that by (auto simp: real_time_no_key)
  have g: "fst (get_real_time_data w key lat lon) = Inr None"
    if "key = Some k" and "k \<noteq> []"
      and "requests_get w (weather_url w k lat lon) 10 = Inl x" and "is_RequestException x"
    for k x
    using that by (simp add: get_real_time_data_def Let_def real_time_handler_result)
  have h: "fst (get_real_time_data w key lat lon) = Inr None"
    if "key = Some k" and "k \<noteq> []"
      and r: "requests_get w (weather_url w k lat lon) 10 = Inr r"
      and st: "400 \<le> status_code r \<and> status_code r < 600"
    for k r
  proof -
    from st obtain x where x: "raise_for_status r = Some x"
      using raise_for_status_iff [of r] by (cases "raise_for_status r") auto
    from raise_for_status_class [OF x] have "is_RequestException x" .
    with that x show ?thesis
      by (simp add: get_real_time_data_def Let_def real_time_handler_result)
  qed
  have i: "fst (get_real_time_data w key lat lon) = Inr None"
    if "key = Some k" and "k \<noteq> []"
      and "requests_get w (weather_url w k lat lon) 10 = Inr r"
      and st: "\<not> (400 \<le> status_code r \<and> status_code r < 600)"
      and "json_body r = Inl x" and "is_RequestException x"
    for k r x
  proof -
    from st have "raise_for_status r = None"
      by (simp add: raise_for_status_iff)
    with that show ?thesis
      by (simp add: get_real_time_data_def Let_def real_time_handler_result)
  qed
  from a b c d e f g h i show ?thesis by blast
qed

theorem run_fetch_counts_witness:
  "no_cache (JAMMU_LAT, JAMMU_LON, Datetime 2020 1 1 0, now world_online) = None
   \<and> count_events is_meteostat_fetch (run_trace world_online no_cache) = 1
   \<and> count_events is_requests_get (run_trace world_online no_cache) = 1
   \<and> requests_get world_offline (weather_url world_offline ''k3y'' JAMMU_LAT JAMMU_LON) 10
       = Inl (Exn RequestException ''connection refused'')
   \<and> is_RequestException (Exn RequestException ''connection refused'')
   \<and> fst (get_real_time_data world_offline (Some ''k3y'') JAMMU_LAT JAMMU_LON) = Inr None"
proof -
  have a: "no_cache (JAMMU_LAT, JAMMU_LON, Datetime 2020 1 1 0, now world_online) = None"
    by (simp add: no_cache_def)
  have a': "no_cache (JAMMU_LAT, JAMMU_LON, Datetime 2020 1 1 0, now world_offline) = None"
    by (simp add: no_cache_def)
  have b: "count_events is_requests_get (run_trace world_online no_cache) = 1"
    by code_simp
  have c: "requests_get world_offline (weather_url world_offline ''k3y'' JAMMU_LAT JAMMU_LON) 10
       = Inl (Exn RequestException ''connection refused'')"
    by (simp add: world_offline_def world_online_def)
  have d: "is_RequestException (Exn RequestException ''connection refused'')"
    by (simp add: is_RequestException_def)
  have e: "count_events is_meteostat_fetch (run_trace world_online no_cache) = 1"
    by (rule run_fetch_counts [where cache = no_cache and w = world_online, OF a,
          THEN conjunct1])
  note t = run_fetch_counts [where cache = no_cache and w = world_offline
         and key = "Some ''k3y''" and lat = JAMMU_LAT and lon = JAMMU_LON, OF a',
         THEN conjunct2, THEN conjunct2, THEN conjunct2, THEN conjunct2, THEN conjunct2,
         THEN conjunct2, THEN conjunct1, THEN spec [where x = "''k3y''"],
         THEN spec [where x = "Exn RequestException ''connection refused''"], THEN mp]
  have f: "fst (get_real_time_data world_offline (Some ''k3y'') JAMMU_LAT JAMMU_LON) = Inr None"
    by (rule t) (simp add: c d)
  from a e b c d f show ?thesis by (intro conjI)
qed

text \<open>
  C5 as it is stated fails where there is no API key: with no secrets file the key is
  None, the run completes, and it has made the fetch from Meteostat but no request to
  OpenWeather, one fetch instead of two.
\<close>

theorem run_without_key_counterexample:
  "fst (OPENWEATHER_API_KEY world_no_key) = None
   \<and> fst (fst (run world_no_key no_cache))
       = Inr \<lparr>historical_df = daily_frame 40, forecast_df = flat_forecast 55,
              real_time_data = None\<rparr>
   \<and> count_events is_meteostat_fetch (run_trace world_no_key no_cache) = 1
   \<and> count_events is_requests_get (run_trace world_no_key no_cache) = 0"
proof -
  have "fst (OPENWEATHER_API_KEY world_no_key) = None"
    by code_simp
  moreover have "fst (fst (run world_no_key no_cache))
       = Inr \<lparr>historical_df = daily_frame 40, forecast_df = flat_forecast 55,
              real_time_data = None\<rparr>"
    by code_simp
  moreover have "count_events is_meteostat_fetch (run_trace world_no_key no_cache) = 1"
    by code_simp
  moreover have "count_events is_requests_get (run_trace world_no_key no_cache) = 0"
    by code_simp
  ultimately show ?thesis by blast
qed

section \<open>The markers of the risk map\<close>

lemma contains_iff: "contains sub s = (\<exists>p q. s = p @ sub @ q)"
proof -
  have "contains sub s = sublist sub s"
    by (induction s) (auto simp: sublist_Cons_right)
  then show ?thesis by (simp add: sublist_def)
qed

lemma hotspot_marker_color:
  "(icon_color (hotspot_marker h) = ''red'') = (hotspot_risk h = ''High'')"
  "hotspot_risk h \<noteq> ''High'' \<Longrightarrow> icon_color (hotspot_marker h) = ''orange''"
  by (simp_all add: hotspot_marker_def Let_def)

lemma hotspot_marker_icon:
  "(icon_icon (hotspot_marker h) = ''cloud'') = contains ''Cloudburst'' (hotspot_name h)"
  "\<not> contains ''Cloudburst'' (hotspot_name h) \<Longrightarrow> icon_icon (hotspot_marker h) = ''bolt''"
  by (simp_all add: hotspot_marker_def Let_def)

lemma hotspot_marker_style:
  "(icon_color (hotspot_marker h) = ''red'') = (hotspot_risk h = ''High'')
   \<and> (hotspot_risk h \<noteq> ''High'' \<longrightarrow> icon_color (hotspot_marker h) = ''orange'')
   \<and> (icon_icon (hotspot_marker h) = ''cloud'')
       = (\<exists>p q. hotspot_name h = p @ ''Cloudburst'' @ q)
   \<and> (\<not> (\<exists>p q. hotspot_name h = p @ ''Cloudburst'' @ q)
        \<longrightarrow> icon_icon (hotspot_marker h) = ''bolt'')"
  using hotspot_marker_color [of h] hotspot_marker_icon [of h]
    contains_iff [of "''Cloudburst''" "hotspot_name h"]
  by blast

text \<open>
  C10: the list of hotspots has two entries, the map gets one marker for each of them, and
  for every hotspot of the list the marker is red exactly when the risk is \<open>High\<close> and
  orange otherwise, and its icon is \<open>cloud\<close> exactly when the name contains \<open>Cloudburst\<close>
  and \<open>bolt\<close> otherwise; so the two markers are a red and an orange bolt.
\<close>

theorem risk_map_marker_styles:
  "length landslide_hotspots = 2
   \<and> risk_map_markers = map hotspot_marker landslide_hotspots
   \<and> (\<forall>h \<in> set landslide_hotspots.
         (icon_color (hotspot_marker h) = ''red'') = (hotspot_risk h = ''High'')
         \<and> (hotspot_risk h \<noteq> ''High'' \<longrightarrow> icon_color (hotspot_marker h) = ''orange'')
         \<and> (icon_icon (hotspot_marker h) = ''cloud'')
             = (\<exists>p q. hotspot_name h = p @ ''Cloudburst'' @ q)
         \<and> (\<not> (\<exists>p q. hotspot_name h = p @ ''Cloudburst'' @ q)
              \<longrightarrow> icon_icon (hotspot_marker h) = ''bolt''))
   \<and> map icon_color risk_map_markers = [''red'', ''orange'']
   \<and> map icon_icon risk_map_markers = [''bolt'', ''bolt'']"
proof -
  have "length landslide_hotspots = 2"
    by (simp add: landslide_hotspots_def)
  moreover have "map icon_color risk_map_markers = [''red'', ''orange'']"
    by (simp add: risk_map_markers_def landslide_hotspots_def hotspot_marker_def)
  moreover have "map icon_icon risk_map_markers = [''bolt'', ''bolt'']"
    by (simp add: risk_map_markers_def landslide_hotspots_def hotspot_marker_def)
  moreover have "risk_map_markers = map hotspot_marker landslide_hotspots"
    by (simp add: risk_map_markers_def)
  moreover have "\<forall>h \<in> set landslide_hotspots.
         (icon_color (hotspot_marker h) = ''red'') = (hotspot_risk h = ''High'')
         \<and> (hotspot_risk h \<noteq> ''High'' \<longrightarrow> icon_color (hotspot_marker h) = ''orange'')
         \<and> (icon_icon (hotspot_marker h) = ''cloud'')
             = (\<exists>p q. hotspot_name h = p @ ''Cloudburst'' @ q)
         \<and> (\<not> (\<exists>p q. hotspot_name h = p @ ''Cloudburst'' @ q)
              \<longrightarrow> icon_icon (hotspot_marker h) = ''bolt'')"
  proof
    fix h
    show "(icon_color (hotspot_marker h) = ''red'') = (hotspot_risk h = ''High'')
         \<and> (hotspot_risk h \<noteq> ''High'' \<longrightarrow> icon_color (hotspot_marker h) = ''orange'')
         \<and> (icon_icon (hotspot_marker h) = ''cloud'')
             = (\<exists>p q. hotspot_name h = p @ ''Cloudburst'' @ q)
         \<and> (\<not> (\<exists>p q. hotspot_name h = p @ ''Cloudburst'' @ q)
              \<longrightarrow> icon_icon (hotspot_marker h) = ''bolt'')"
      by (rule hotspot_marker_style)
  qed
  ultimately show ?thesis
    by (intro conjI)
qed

theorem risk_map_marker_styles_witness:
  "\<lparr>hotspot_lat = 32.78, hotspot_lon = 74.92, hotspot_name = ''Nagrota'',
     hotspot_risk = ''High''\<rparr> \<in> set landslide_hotspots
   \<and> icon_color (hotspot_marker \<lparr>hotspot_lat = 32.78, hotspot_lon = 74.92,
        hotspot_name = ''Nagrota'', hotspot_risk = ''High''\<rparr>) = ''red''
   \<and> \<lparr>hotspot_lat = 32.75, hotspot_lon = 74.88, hotspot_name = ''Jammu City'',
       hotspot_risk = ''Medium''\<rparr> \<in> set landslide_hotspots
   \<and> icon_color (hotspot_marker \<lparr>hotspot_lat = 32.75, hotspot_lon = 74.88,
        hotspot_name = ''Jammu City'', hotspot_risk = ''Medium''\<rparr>) = ''orange''"
proof -
  have a: "\<lparr>hotspot_lat = 32.78, hotspot_lon = 74.92, hotspot_name = ''Nagrota'',
     hotspot_risk = ''High''\<rparr> \<in> set landslide_hotspots"
    by (simp add: landslide_hotspots_def)
  have b: "\<lparr>hotspot_lat = 32.75, hotspot_lon = 74.88, hotspot_name = ''Jammu City'',
       hotspot_risk = ''Medium''\<rparr> \<in> set landslide_hotspots"
    by (simp add: landslide_hotspots_def)
  note all = risk_map_marker_styles [THEN conjunct2, THEN conjunct2, THEN conjunct1]
  from all [THEN bspec, OF a, THEN conjunct1]
  have c: "icon_color (hotspot_marker \<lparr>hotspot_lat = 32.78, hotspot_lon = 74.92,
        hotspot_name = ''Nagrota'', hotspot_risk = ''High''\<rparr>) = ''red''"
    by simp
  from all [THEN bspec, OF b, THEN conjunct2, THEN conjunct1]
  have d: "icon_color (hotspot_marker \<lparr>hotspot_lat = 32.75, hotspot_lon = 74.88,
        hotspot_name = ''Jammu City'', hotspot_risk = ''Medium''\<rparr>) = ''orange''"
    by simp
  from a b c d show ?thesis by (intro conjI)
qed

end
